theory Spec2Isabelle
  imports Main "HOL-Library.List_Lexorder" "HOL-Library.Char_ord" "HOL-Library.Sublist"
    "HOL-Library.Multiset"
begin

section \<open>JavaScript strings and arrays\<close>

text \<open>
  The generator of \<^verbatim>\<open>generate-wxt-dir.ts\<close> builds text. A JavaScript string is modelled
  as a \<^typ>\<open>string\<close>, one \<^typ>\<open>char\<close> per code unit (code units below 256). The order on
  strings is the lexicographic order on code units, a proper prefix being smaller, which is
  the order \<^verbatim>\<open>Array.prototype.sort()\<close> uses when it is called without a comparator.
\<close>

text \<open>\<^verbatim>\<open>Array.prototype.join\<close> on an array of strings.\<close>

fun js_join :: "string \<Rightarrow> string list \<Rightarrow> string" where
  "js_join sep [] = []"
| "js_join sep [x] = x"
| "js_join sep (x # y # ys) = x @ sep @ js_join sep (y # ys)"

text \<open>
  \<open>split_first pat s\<close> finds the first occurrence of \<open>pat\<close> in \<open>s\<close> and returns the text
  before it and the text after it.
\<close>

fun split_first :: "string \<Rightarrow> string \<Rightarrow> (string \<times> string) option" where
  "split_first pat [] = (if pat = [] then Some ([], []) else None)"
| "split_first pat (c # cs) =
     (if prefix pat (c # cs) then Some ([], drop (length pat) (c # cs))
      else map_option (\<lambda>(pre, post). (c # pre, post)) (split_first pat cs))"

text \<open>
  The replacement text of \<^verbatim>\<open>String.prototype.replace\<close> is not spliced in as it is: the
  language expands \<^verbatim>\<open>$$\<close> to one dollar sign, \<^verbatim>\<open>$&\<close> to the matched text,
  \<^verbatim>\<open>$`\<close> to the text before the match and \<^verbatim>\<open>$'\<close> to the text after it. With a string
  pattern there are no capture groups, so \<^verbatim>\<open>$1\<close> and \<^verbatim>\<open>$<\<close> stay as they are, as does
  a dollar sign followed by any other character.
\<close>

fun getSubstitution :: "string \<Rightarrow> string \<Rightarrow> string \<Rightarrow> string \<Rightarrow> string" where
  "getSubstitution matched pre post [] = []"
| "getSubstitution matched pre post [c] = [c]"
| "getSubstitution matched pre post (c # d # r) =
     (if c = CHR ''$'' \<and> d = CHR ''$'' then CHR ''$'' # getSubstitution matched pre post r
      else if c = CHR ''$'' \<and> d = CHR ''&'' then matched @ getSubstitution matched pre post r
      else if c = CHR ''$'' \<and> d = CHR 0x60 then pre @ getSubstitution matched pre post r
      else if c = CHR ''$'' \<and> d = CHR 0x27 then post @ getSubstitution matched pre post r
      else c # getSubstitution matched pre post (d # r))"

text \<open>
  \<^verbatim>\<open>s.replace(pat, rep)\<close> with a string pattern: the first occurrence only, and the
  string itself when the pattern does not occur.
\<close>

definition js_replace :: "string \<Rightarrow> string \<Rightarrow> string \<Rightarrow> string" where
  "js_replace s pat rep =
     (case split_first pat s of
        None \<Rightarrow> s
      | Some (pre, post) \<Rightarrow> pre @ getSubstitution pat pre post rep @ post)"

section \<open>Configuration and collaborators\<close>

text \<open>The lint tool's value for a global: a boolean or one of four words.\<close>

datatype eslint_globals_prop_value = GlobalBool bool | Readonly | Readable | Writable | Writeable

text \<open>\<^verbatim>\<open>wxt.config.imports\<close> when it is not \<^verbatim>\<open>false\<close>: the fields of \<^verbatim>\<open>eslintrc\<close> read here.\<close>

record unimport_options =
  eslintrc_enabled :: bool
  eslintrc_filePath :: string
  eslintrc_globalsPropValue :: eslint_globals_prop_value

datatype module_type = Local | NodeModule

record wxt_module =
  module_id :: string
  module_type :: module_type
  module_configKey :: "string option"

text \<open>The part of \<^verbatim>\<open>wxt.config\<close> the generator reads.\<close>

record config =
  typesDir :: string
  wxtDir :: string
  outDir :: string
  outBaseDir :: string
  srcDir :: string
  publicDir :: string
  root :: string
  config_imports :: "unimport_options option"
  default_locale :: "string option"
  modules :: "wxt_module list"
  alias_entries :: "(string \<times> string) list"

text \<open>One entry of \<^verbatim>\<open>unimport.getImports()\<close>: the exported name and the optional alias.\<close>

record unimport_import =
  import_name :: string
  import_as :: "string option"

text \<open>A message of the localization catalog, as \<^verbatim>\<open>parseI18nMessages\<close> returns it.\<close>

record message =
  msg_name :: string
  msg_message :: string
  msg_description :: "string option"

text \<open>A global of \<^verbatim>\<open>getGlobals\<close> or \<^verbatim>\<open>getEntrypointGlobals\<close>: its name and its type.\<close>

record global =
  global_name :: string
  global_type :: string

datatype error = FileNotFound string | SyntaxError | CatalogError string

text \<open>
  The functions the generator imports from other files and from libraries are parameters
  of the model: a theorem that is not about an example holds whatever they compute.
  \<open>'e\<close> is the type of entrypoints and \<open>'j\<close> the type of parsed JSON values. The
  fields that are lists are the values the collaborators return during one run: \<^verbatim>\<open>getPublicFiles()\<close>,
  \<^verbatim>\<open>getGlobals(wxt.config)\<close>, \<^verbatim>\<open>getEntrypointGlobals('')\<close>, and, after the scan of the
  source directory, \<^verbatim>\<open>unimport.generateTypeDeclarations()\<close> and \<^verbatim>\<open>unimport.getImports()\<close>.
  \<open>alias_entries\<close> of the configuration is \<^verbatim>\<open>Object.entries(wxt.config.alias)\<close>.
\<close>

record ('e, 'j) env =
  getEntrypointBundlePath :: "'e \<Rightarrow> string \<Rightarrow> string \<Rightarrow> string"
  isHtmlEntrypoint :: "'e \<Rightarrow> bool"
  normalizePath :: "string \<Rightarrow> string"
  relative :: "string \<Rightarrow> string \<Rightarrow> string"
  resolve :: "string list \<Rightarrow> string"
  getPublicFiles :: "string list"
  JSON_parse :: "string \<Rightarrow> 'j option"
  emptyObject :: "'j"
  parseI18nMessages :: "'j \<Rightarrow> error + message list"
  getGlobals :: "global list"
  getEntrypointGlobals :: "global list"
  generateTypeDeclarations :: string
  getImports :: "unimport_import list"
  stringifyJson :: "(string \<times> eslint_globals_prop_value) list \<Rightarrow> string"

section \<open>The file system\<close>

text \<open>
  Files are a map from paths to contents. \<open>writes\<close> records the path of every write that
  reaches the disk, the oldest first, so that the writes of a run can be counted.
  Directories and permissions are not part of the state: \<^verbatim>\<open>fs.ensureDir\<close> changes no
  file, and a write never fails.
\<close>

record fs_state =
  files :: "string \<rightharpoonup> string"
  writes :: "string list"

definition readFile :: "string \<Rightarrow> fs_state \<Rightarrow> error + string" where
  "readFile p s = (case files s p of None \<Rightarrow> Inl (FileNotFound p) | Some c \<Rightarrow> Inr c)"

definition writeFile :: "string \<Rightarrow> string \<Rightarrow> fs_state \<Rightarrow> fs_state" where
  "writeFile p c s = s\<lparr>files := (files s)(p \<mapsto> c), writes := writes s @ [p]\<rparr>"

text \<open>
  Modelled from the spec: \<^verbatim>\<open>writeFileIfDifferent\<close> of \<^verbatim>\<open>~/core/utils/fs\<close>, which is not
  among the sources. The spec: it reads the existing content at the location if present and
  writes the content only when the file is absent or differs, byte for byte.
\<close>

definition writeFileIfDifferent :: "string \<Rightarrow> string \<Rightarrow> fs_state \<Rightarrow> fs_state" where
  "writeFileIfDifferent p c s = (if files s p = Some c then s else writeFile p c s)"

section \<open>The paths declaration file\<close>

definition paths_template :: string where
  \<open>paths_template =
     ''// Generated by wxt\<newline>'' @
     ''import "wxt/browser";\<newline>'' @
     ''\<newline>'' @
     ''declare module "wxt/browser" {\<newline>'' @
     ''  export type PublicPath =\<newline>'' @
     ''{{ union }}\<newline>'' @
     ''  type HtmlPublicPath = Extract<PublicPath, `${string}.html`>\<newline>'' @
     ''  export interface WxtRuntime extends Runtime.Static {\<newline>'' @
     ''    getURL(path: PublicPath): string;\<newline>'' @
     ''    getURL(path: `${HtmlPublicPath}${string}`): string;\<newline>'' @
     ''  }\<newline>'' @
     ''}\<newline>''\<close>

text \<open>The array the source sorts and joins: one line per entrypoint and per public file.\<close>

definition union_line :: "string \<Rightarrow> string" where
  \<open>union_line path = ''    | "/'' @ path @ ''"''\<close>

definition union_lines :: "('e, 'j) env \<Rightarrow> config \<Rightarrow> 'e list \<Rightarrow> string list" where
  "union_lines E cfg entrypoints =
     sort (map union_line (map (normalizePath E)
       (map (\<lambda>entry. getEntrypointBundlePath E entry (outDir cfg)
               (if isHtmlEntrypoint E entry then ''.html'' else ''.js'')) entrypoints
        @ getPublicFiles E)))"

definition unions :: "('e, 'j) env \<Rightarrow> config \<Rightarrow> 'e list \<Rightarrow> string" where
  "unions E cfg entrypoints = js_join ''\<newline>'' (union_lines E cfg entrypoints)"

text \<open>\<^verbatim>\<open>unions || '    | never'\<close>: the empty string is the only falsy string.\<close>

definition paths_content :: "('e, 'j) env \<Rightarrow> config \<Rightarrow> 'e list \<Rightarrow> string" where
  "paths_content E cfg entrypoints =
     js_replace paths_template ''{{ union }}''
       (if unions E cfg entrypoints = [] then ''    | never'' else unions E cfg entrypoints)"

definition writePathsDeclarationFile ::
  "('e, 'j) env \<Rightarrow> config \<Rightarrow> 'e list \<Rightarrow> fs_state \<Rightarrow> string \<times> fs_state" where
  "writePathsDeclarationFile E cfg entrypoints s =
     (let filePath = resolve E [typesDir cfg, ''paths.d.ts'']
      in (filePath, writeFileIfDifferent filePath (paths_content E cfg entrypoints) s))"

section \<open>The localization declaration file\<close>

definition i18n_template :: string where
  \<open>i18n_template =
     ''// Generated by wxt\<newline>'' @
     ''import "wxt/browser";\<newline>'' @
     ''\<newline>'' @
     ''declare module "wxt/browser" {\<newline>'' @
     ''  /**\<newline>'' @
     ''   * See https://developer.chrome.com/docs/extensions/reference/i18n/#method-getMessage\<newline>'' @
     ''   */\<newline>'' @
     ''  interface GetMessageOptions {\<newline>'' @
     ''    /**\<newline>'' @
     ''     * See https://developer.chrome.com/docs/extensions/reference/i18n/#method-getMessage\<newline>'' @
     ''     */\<newline>'' @
     ''    escapeLt?: boolean\<newline>'' @
     ''  }\<newline>'' @
     ''\<newline>'' @
     ''  export interface WxtI18n extends I18n.Static {\<newline>'' @
     ''{{ overrides }}\<newline>'' @
     ''  }\<newline>'' @
     ''}\<newline>''\<close>

text \<open>
  \<^verbatim>\<open>message.description || 'No message description.'\<close>: the fallback stands in for a
  description that is absent or the empty string.
\<close>

definition description_or_default :: "message \<Rightarrow> string" where
  "description_or_default m =
     (case msg_description m of
        None \<Rightarrow> ''No message description.''
      | Some d \<Rightarrow> if d = [] then ''No message description.'' else d)"

text \<open>The function mapped over the messages: one overload of \<^verbatim>\<open>getMessage\<close>.\<close>

definition override :: "message \<Rightarrow> string" where
  \<open>override m =
     ''    /**\<newline>'' @
     ''     * '' @ description_or_default m @ ''\<newline>'' @
     ''     *\<newline>'' @
     ''     * "'' @ msg_message m @ ''"\<newline>'' @
     ''     */\<newline>'' @
     ''    getMessage(\<newline>'' @
     ''      messageName: "'' @ msg_name m @ ''",\<newline>'' @
     ''      substitutions?: string | string[],\<newline>'' @
     ''      options?: GetMessageOptions,\<newline>'' @
     ''    ): string;''\<close>

definition overrides :: "message list \<Rightarrow> string list" where
  "overrides messages = map override messages"

definition i18n_content :: "message list \<Rightarrow> string" where
  "i18n_content messages =
     js_replace i18n_template ''{{ overrides }}'' (js_join ''\<newline>'' (overrides messages))"

text \<open>
  The messages of the default locale. \<^verbatim>\<open>if (defaultLocale)\<close> takes the first branch for a
  locale that is defined and not the empty string. Reading a missing file throws,
  \<^verbatim>\<open>JSON.parse\<close> throws a \<^verbatim>\<open>SyntaxError\<close> on text that is not JSON, and whatever
  \<^verbatim>\<open>parseI18nMessages\<close> throws is not caught either.
\<close>

definition defaultLocalePath :: "('e, 'j) env \<Rightarrow> config \<Rightarrow> string \<Rightarrow> string" where
  "defaultLocalePath E cfg defaultLocale =
     resolve E [publicDir cfg, ''_locales'', defaultLocale, ''messages.json'']"

definition load_messages :: "('e, 'j) env \<Rightarrow> config \<Rightarrow> fs_state \<Rightarrow> error + message list" where
  "load_messages E cfg s =
     (case default_locale cfg of
        None \<Rightarrow> parseI18nMessages E (emptyObject E)
      | Some defaultLocale \<Rightarrow>
          if defaultLocale = [] then parseI18nMessages E (emptyObject E)
          else
            (case readFile (defaultLocalePath E cfg defaultLocale) s of
               Inl e \<Rightarrow> Inl e
             | Inr text \<Rightarrow>
                 (case JSON_parse E text of
                    None \<Rightarrow> Inl SyntaxError
                  | Some content \<Rightarrow> parseI18nMessages E content)))"

text \<open>
  A function that can throw returns the error or its value, and the file system as it is
  when the function returns or throws.
\<close>

definition writeI18nDeclarationFile ::
  "('e, 'j) env \<Rightarrow> config \<Rightarrow> fs_state \<Rightarrow> (error + string) \<times> fs_state" where
  "writeI18nDeclarationFile E cfg s =
     (let filePath = resolve E [typesDir cfg, ''i18n.d.ts'']
      in case load_messages E cfg s of
           Inl e \<Rightarrow> (Inl e, s)
         | Inr messages \<Rightarrow> (Inr filePath, writeFileIfDifferent filePath (i18n_content messages) s))"

section \<open>The globals declaration file\<close>

definition global_member :: "global \<Rightarrow> string" where
  "global_member g = ''  readonly '' @ global_name g @ '': '' @ global_type g @ '';''"

definition globals_lines :: "('e, 'j) env \<Rightarrow> string list" where
  "globals_lines E =
     [''// Generated by wxt'', ''export {}'', ''interface ImportMetaEnv {'']
     @ map global_member (getGlobals E @ getEntrypointGlobals E)
     @ [''}'', ''interface ImportMeta {'', ''  readonly env: ImportMetaEnv'', ''}'']"

definition globals_content :: "('e, 'j) env \<Rightarrow> string" where
  "globals_content E = js_join ''\<newline>'' (globals_lines E) @ ''\<newline>''"

definition writeGlobalsDeclarationFile ::
  "('e, 'j) env \<Rightarrow> config \<Rightarrow> fs_state \<Rightarrow> string \<times> fs_state" where
  "writeGlobalsDeclarationFile E cfg s =
     (let filePath = resolve E [typesDir cfg, ''globals.d.ts'']
      in (filePath, writeFileIfDifferent filePath (globals_content E) s))"

text \<open>
  Modelled from the spec: the member-merging rule of the type checker that reads the
  declaration file, which is no code of the repository. The spec: later duplicates shadow
  earlier ones, so of the members of one name the later one determines the effective
  type. \<open>effective_type members x\<close> is the type of the last member named \<open>x\<close>, for the
  members in the order of the file.
\<close>

fun effective_type :: "global list \<Rightarrow> string \<Rightarrow> string option" where
  "effective_type [] x = None"
| "effective_type (g # members) x =
     (case effective_type members x of
        Some t \<Rightarrow> Some t
      | None \<Rightarrow> if global_name g = x then Some (global_type g) else None)"

section \<open>The root declaration file\<close>

text \<open>
  \<^verbatim>\<open>module.type === 'node_module' && module.configKey != null\<close>: the loose inequality
  excludes both \<^verbatim>\<open>null\<close> and \<^verbatim>\<open>undefined\<close>, which \<open>None\<close> stands for.
\<close>

definition needs_reference :: "wxt_module \<Rightarrow> bool" where
  "needs_reference m = (module_type m = NodeModule \<and> module_configKey m \<noteq> None)"

definition file_reference :: "('e, 'j) env \<Rightarrow> string \<Rightarrow> string \<Rightarrow> string" where
  \<open>file_reference E dir ref =
     ''/// <reference types="./'' @ normalizePath E (relative E dir ref) @ ''" />''\<close>

definition module_reference :: "wxt_module \<Rightarrow> string" where
  \<open>module_reference m = ''/// <reference types="'' @ module_id m @ ''" />''\<close>

definition module_references :: "config \<Rightarrow> string list" where
  "module_references cfg = map module_reference (filter needs_reference (modules cfg))"

definition main_lines :: "('e, 'j) env \<Rightarrow> config \<Rightarrow> string list \<Rightarrow> string list" where
  \<open>main_lines E cfg references =
     [''// Generated by wxt'', ''/// <reference types="wxt/vite-builder-env" />'']
     @ map (file_reference E (wxtDir cfg)) references
     @ module_references cfg\<close>

definition main_content :: "('e, 'j) env \<Rightarrow> config \<Rightarrow> string list \<Rightarrow> string" where
  "main_content E cfg references = js_join ''\<newline>'' (main_lines E cfg references) @ ''\<newline>''"

definition writeMainDeclarationFile ::
  "('e, 'j) env \<Rightarrow> config \<Rightarrow> string list \<Rightarrow> fs_state \<Rightarrow> string \<times> fs_state" where
  "writeMainDeclarationFile E cfg references s =
     (let filePath = resolve E [wxtDir cfg, ''wxt.d.ts'']
      in (filePath, writeFileIfDifferent filePath (main_content E cfg references) s))"

section \<open>The project descriptor\<close>

definition getTsconfigPath :: "('e, 'j) env \<Rightarrow> config \<Rightarrow> string \<Rightarrow> string" where
  "getTsconfigPath E cfg path = normalizePath E (relative E (wxtDir cfg) path)"

text \<open>The two lines the source's \<^verbatim>\<open>flatMap\<close> returns for one entry of the alias table.\<close>

definition alias_lines :: "('e, 'j) env \<Rightarrow> config \<Rightarrow> string \<times> string \<Rightarrow> string list" where
  \<open>alias_lines E cfg entry =
     (let aliasPath = getTsconfigPath E cfg (snd entry)
      in [''      "'' @ fst entry @ ''": ["'' @ aliasPath @ ''"]'',
          ''      "'' @ fst entry @ ''/*": ["'' @ aliasPath @ ''/*"]''])\<close>

definition paths_lines :: "('e, 'j) env \<Rightarrow> config \<Rightarrow> string list" where
  "paths_lines E cfg = concat (map (alias_lines E cfg) (alias_entries cfg))"

definition tsconfig_paths :: "('e, 'j) env \<Rightarrow> config \<Rightarrow> string" where
  "tsconfig_paths E cfg = js_join '',\<newline>'' (paths_lines E cfg)"

definition tsconfig_content :: "('e, 'j) env \<Rightarrow> config \<Rightarrow> string \<Rightarrow> string" where
  \<open>tsconfig_content E cfg mainReference =
     ''{\<newline>'' @
     ''  "compilerOptions": {\<newline>'' @
     ''    "target": "ESNext",\<newline>'' @
     ''    "module": "ESNext",\<newline>'' @
     ''    "moduleResolution": "Bundler",\<newline>'' @
     ''    "noEmit": true,\<newline>'' @
     ''    "esModuleInterop": true,\<newline>'' @
     ''    "forceConsistentCasingInFileNames": true,\<newline>'' @
     ''    "resolveJsonModule": true,\<newline>'' @
     ''    "strict": true,\<newline>'' @
     ''    "skipLibCheck": true,\<newline>'' @
     ''    "paths": {\<newline>'' @
     tsconfig_paths E cfg @ ''\<newline>'' @
     ''    }\<newline>'' @
     ''  },\<newline>'' @
     ''  "include": [\<newline>'' @
     ''    "'' @ getTsconfigPath E cfg (root cfg) @ ''/**/*",\<newline>'' @
     ''    "./'' @ getTsconfigPath E cfg mainReference @ ''"\<newline>'' @
     ''  ],\<newline>'' @
     ''  "exclude": ["'' @ getTsconfigPath E cfg (outBaseDir cfg) @ ''"]\<newline>'' @
     ''}''\<close>

definition writeTsConfigFile ::
  "('e, 'j) env \<Rightarrow> config \<Rightarrow> string \<Rightarrow> fs_state \<Rightarrow> fs_state" where
  "writeTsConfigFile E cfg mainReference s =
     writeFileIfDifferent (resolve E [wxtDir cfg, ''tsconfig.json''])
       (tsconfig_content E cfg mainReference) s"

section \<open>The imports declaration file and the lint-globals file\<close>

definition imports_content :: "('e, 'j) env \<Rightarrow> string" where
  "imports_content E =
     js_join ''\<newline>'' [''// Generated by wxt'', generateTypeDeclarations E] @ ''\<newline>''"

definition writeImportsDeclarationFile ::
  "('e, 'j) env \<Rightarrow> config \<Rightarrow> fs_state \<Rightarrow> string \<times> fs_state" where
  "writeImportsDeclarationFile E cfg s =
     (let filePath = resolve E [typesDir cfg, ''imports.d.ts'']
      in (filePath, writeFileIfDifferent filePath (imports_content E) s))"

text \<open>
  An object is the list of its own properties in the order of their creation. An
  assignment to a property that exists changes its value and keeps its place; an
  assignment to a new name adds the property at the end.
\<close>

fun obj_define :: "string \<Rightarrow> 'v \<Rightarrow> (string \<times> 'v) list \<Rightarrow> (string \<times> 'v) list" where
  "obj_define k v [] = [(k, v)]"
| "obj_define k v (p # ps) = (if fst p = k then (k, v) # ps else p # obj_define k v ps)"

text \<open>
  \<^verbatim>\<open>obj[k] = v\<close> on an object literal, for a value that is a boolean or a string, as the
  values of the lint-globals object are. An assignment to \<^verbatim>\<open>__proto__\<close> reaches the
  setter the object inherits, which ignores a value that is not an object: it creates no
  property.
\<close>

definition obj_set :: "string \<Rightarrow> 'v \<Rightarrow> (string \<times> 'v) list \<Rightarrow> (string \<times> 'v) list" where
  "obj_set k v obj = (if k = ''__proto__'' then obj else obj_define k v obj)"

text \<open>
  The language enumerates the properties of an object, as \<^verbatim>\<open>JSON.stringify\<close> does, with
  the array indices first, in ascending numeric order, and the other names after them in
  the order of their creation. An array index is the decimal form, without a leading
  zero, of an integer below \<open>2^32 - 1\<close>.
\<close>

definition is_digit :: "char \<Rightarrow> bool" where
  "is_digit c = (CHR ''0'' \<le> c \<and> c \<le> CHR ''9'')"

fun canonical_digits :: "string \<Rightarrow> bool" where
  "canonical_digits [] = False"
| "canonical_digits [c] = is_digit c"
| "canonical_digits (c # d # r) = (is_digit c \<and> c \<noteq> CHR ''0'' \<and> list_all is_digit (d # r))"

definition index_value :: "string \<Rightarrow> nat" where
  "index_value s = foldl (\<lambda>n c. 10 * n + (of_char c - 48)) 0 s"

definition is_array_index :: "string \<Rightarrow> bool" where
  "is_array_index s = (canonical_digits s \<and> index_value s < 2 ^ 32 - 1)"

definition own_entries :: "(string \<times> 'v) list \<Rightarrow> (string \<times> 'v) list" where
  "own_entries obj =
     sort_key (\<lambda>p. index_value (fst p)) (filter (\<lambda>p. is_array_index (fst p)) obj)
     @ filter (\<lambda>p. \<not> is_array_index (fst p)) obj"

text \<open>
  \<^verbatim>\<open>.map((i) => i.as ?? i.name).filter(Boolean).sort()\<close>: the alias when there is one,
  the empty names dropped, the rest sorted.
\<close>

definition binding_name :: "unimport_import \<Rightarrow> string" where
  "binding_name i = (case import_as i of None \<Rightarrow> import_name i | Some a \<Rightarrow> a)"

definition global_names :: "unimport_import list \<Rightarrow> string list" where
  "global_names imps = sort (filter (\<lambda>name. name \<noteq> []) (map binding_name imps))"

text \<open>The \<^verbatim>\<open>globals\<close> object after the \<^verbatim>\<open>forEach\<close>.\<close>

definition eslintrc_globals ::
  "unimport_import list \<Rightarrow> eslint_globals_prop_value \<Rightarrow> (string \<times> eslint_globals_prop_value) list" where
  "eslintrc_globals imps v =
     foldl (\<lambda>globals name. obj_set name v globals) [] (global_names imps)"

text \<open>
  \<^verbatim>\<open>fs.writeJson\<close> serializes the object and writes the file, whatever the file holds.
  The serializer is a parameter: it receives the properties of \<^verbatim>\<open>globals\<close> as the
  language enumerates them.
\<close>

definition writeImportsEslintFile ::
  "('e, 'j) env \<Rightarrow> unimport_options \<Rightarrow> fs_state \<Rightarrow> fs_state" where
  "writeImportsEslintFile E options s =
     writeFile (eslintrc_filePath options)
       (stringifyJson E (own_entries (eslintrc_globals (getImports E) (eslintrc_globalsPropValue options)))) s"

section \<open>The pipeline\<close>

text \<open>
  The imports step of \<^verbatim>\<open>generateTypesDir\<close>: nothing when \<^verbatim>\<open>wxt.config.imports\<close> is
  \<^verbatim>\<open>false\<close>, otherwise the imports declaration file and, when enabled, the lint-globals
  file.
\<close>

definition imports_step ::
  "('e, 'j) env \<Rightarrow> config \<Rightarrow> fs_state \<Rightarrow> string list \<times> fs_state" where
  "imports_step E cfg s =
     (case config_imports cfg of
        None \<Rightarrow> ([], s)
      | Some options \<Rightarrow>
          (let (ref, s1) = writeImportsDeclarationFile E cfg s
           in ([ref], if eslintrc_enabled options then writeImportsEslintFile E options s1 else s1)))"

definition generateTypesDir ::
  "('e, 'j) env \<Rightarrow> config \<Rightarrow> 'e list \<Rightarrow> fs_state \<Rightarrow> (error + unit) \<times> fs_state" where
  "generateTypesDir E cfg entrypoints s =
     (let (refs, s1) = imports_step E cfg s;
          (pathsRef, s2) = writePathsDeclarationFile E cfg entrypoints s1
      in case writeI18nDeclarationFile E cfg s2 of
           (Inl e, s3) \<Rightarrow> (Inl e, s3)
         | (Inr i18nRef, s3) \<Rightarrow>
             (let (globalsRef, s4) = writeGlobalsDeclarationFile E cfg s3;
                  (mainReference, s5) =
                     writeMainDeclarationFile E cfg (refs @ [pathsRef, i18nRef, globalsRef]) s4
              in (Inr (), writeTsConfigFile E cfg mainReference s5)))"

section \<open>An instance of the collaborators\<close>

text \<open>
  The theorems below hold for every value of the parameters. Their examples run on the
  instance of this section: POSIX paths, entrypoints that are written to the output
  directory itself, and a catalog that is already a list of entries.
\<close>

text \<open>
  Modelled from the spec: an \<^verbatim>\<open>Entrypoint\<close> of \<^verbatim>\<open>~/types\<close>, which is not among the
  sources. The spec gives it an identifier and a kind, markup-producing or
  script-producing.
\<close>

record entrypoint =
  entry_name :: string
  entry_html :: bool

text \<open>
  Modelled from the spec: \<^verbatim>\<open>getEntrypointBundlePath\<close> of \<^verbatim>\<open>~/core/utils/entrypoints\<close>,
  which is not among the sources. The spec: it maps an entrypoint, the output directory
  and an extension to the public output path; its example gives \<^verbatim>\<open>popup\<close> the path
  \<^verbatim>\<open>popup.html\<close>.
\<close>

definition bundle_path :: "entrypoint \<Rightarrow> string \<Rightarrow> string \<Rightarrow> string" where
  "bundle_path entry dir ext = entry_name entry @ ext"

text \<open>
  Modelled from the spec: \<^verbatim>\<open>normalizePath\<close> of \<^verbatim>\<open>~/core/utils/paths\<close>, which is not among
  the sources. The spec: it returns the path with all separators converted to \<^verbatim>\<open>/\<close>.
\<close>

definition normalize_separators :: "string \<Rightarrow> string" where
  "normalize_separators path = map (\<lambda>c. if c = CHR 0x5C then CHR ''/'' else c) path"

text \<open>The segments of a path between slashes, the empty ones dropped.\<close>

fun split_slash :: "string \<Rightarrow> string \<Rightarrow> string list" where
  "split_slash acc [] = (if acc = [] then [] else [acc])"
| "split_slash acc (c # cs) =
     (if c = CHR ''/'' then (if acc = [] then [] else [acc]) @ split_slash [] cs
      else split_slash (acc @ [c]) cs)"

fun drop_common :: "string list \<Rightarrow> string list \<Rightarrow> string list \<times> string list" where
  "drop_common (x # xs) (y # ys) = (if x = y then drop_common xs ys else (x # xs, y # ys))"
| "drop_common xs ys = (xs, ys)"

text \<open>
  \<^verbatim>\<open>path.relative\<close> and \<^verbatim>\<open>path.resolve\<close> of the platform on POSIX, for absolute paths
  without \<^verbatim>\<open>.\<close> and \<^verbatim>\<open>..\<close> segments, and for the segments of \<^verbatim>\<open>resolve\<close> after the first
  being relative: one \<^verbatim>\<open>..\<close> for each segment of the directory below the common
  prefix, then the rest of the target.
\<close>

definition posix_relative :: "string \<Rightarrow> string \<Rightarrow> string" where
  "posix_relative from to =
     (let (up, down) = drop_common (split_slash [] from) (split_slash [] to)
      in js_join ''/'' (map (\<lambda>_. ''..'') up @ down))"

definition posix_resolve :: "string list \<Rightarrow> string" where
  "posix_resolve segments = js_join ''/'' segments"

text \<open>
  Modelled from the spec: \<^verbatim>\<open>parseI18nMessages\<close> of \<^verbatim>\<open>~/core/utils/i18n\<close>, which is not
  among the sources. The spec: the input maps a message name to its message and its
  optional description, and the output is the sequence of message descriptors; an empty
  catalog yields the empty sequence. The catalog is the list of its entries.
\<close>

type_synonym catalog = "(string \<times> string \<times> string option) list"

definition parse_catalog :: "catalog \<Rightarrow> error + message list" where
  "parse_catalog content =
     Inr (map (\<lambda>(name, text, description).
            \<lparr>msg_name = name, msg_message = text, msg_description = description\<rparr>) content)"

text \<open>
  \<^verbatim>\<open>JSON.stringify(eslintrc, null, 2)\<close> followed by a line break, as \<^verbatim>\<open>fs.writeJson\<close>
  writes it, for names that need no escape.
\<close>

definition render_prop_value :: "eslint_globals_prop_value \<Rightarrow> string" where
  \<open>render_prop_value v =
     (case v of
        GlobalBool b \<Rightarrow> if b then ''true'' else ''false''
      | Readonly \<Rightarrow> ''"readonly"''
      | Readable \<Rightarrow> ''"readable"''
      | Writable \<Rightarrow> ''"writable"''
      | Writeable \<Rightarrow> ''"writeable"'')\<close>

definition stringify_eslintrc :: "(string \<times> eslint_globals_prop_value) list \<Rightarrow> string" where
  \<open>stringify_eslintrc entries =
     (if entries = [] then ''{\<newline>  "globals": {}\<newline>}\<newline>''
      else ''{\<newline>  "globals": {\<newline>''
           @ js_join '',\<newline>''
               (map (\<lambda>entry. ''    "'' @ fst entry @ ''": '' @ render_prop_value (snd entry)) entries)
           @ ''\<newline>  }\<newline>}\<newline>'')\<close>

text \<open>
  The instance: \<open>table\<close> stands for \<^verbatim>\<open>JSON.parse\<close>, listing the texts that parse and
  their values.
\<close>

definition posix_env :: "(string \<times> catalog) list \<Rightarrow> (entrypoint, catalog) env" where
  "posix_env table =
     \<lparr>getEntrypointBundlePath = bundle_path,
      isHtmlEntrypoint = entry_html,
      normalizePath = normalize_separators,
      relative = posix_relative,
      resolve = posix_resolve,
      getPublicFiles = [],
      JSON_parse = map_of table,
      emptyObject = [],
      parseI18nMessages = parse_catalog,
      getGlobals = [],
      getEntrypointGlobals = [],
      generateTypeDeclarations = ''export {}'',
      getImports = [],
      stringifyJson = stringify_eslintrc\<rparr>"

definition project_config :: config where
  "project_config =
     \<lparr>typesDir = ''/project/.wxt/types'',
      wxtDir = ''/project/.wxt'',
      outDir = ''/project/.output/chrome-mv3'',
      outBaseDir = ''/project/.output'',
      srcDir = ''/project'',
      publicDir = ''/project/public'',
      root = ''/project'',
      config_imports = None,
      default_locale = None,
      modules = [],
      alias_entries = []\<rparr>"

definition empty_fs :: fs_state where
  "empty_fs = \<lparr>files = Map.empty, writes = []\<rparr>"

text \<open>A file system that holds the catalog of the locale \<^verbatim>\<open>en\<close> and nothing else.\<close>

definition fs_with_catalog :: "string \<Rightarrow> fs_state" where
  "fs_with_catalog text = \<lparr>files = [''/project/public/_locales/en/messages.json'' \<mapsto> text], writes = []\<rparr>"

text \<open>A value of \<^verbatim>\<open>JSON.parse\<close>; an object is the list of its properties.\<close>

datatype json =
  JNull | JBool bool | JNumber int | JString string | JArray "json list"
  | JObject "(string \<times> json) list"





section \<open>The writes of one run\<close>

text \<open>
  A run of the pipeline is a sequence of writes, each to a path with a content, either
  unconditional (\<open>True\<close>) or only if the file differs (\<open>False\<close>): the writes up to
  the paths declaration file, then, once the catalog is read, the remaining ones.
\<close>

fun apply_write :: "bool \<times> string \<times> string \<Rightarrow> fs_state \<Rightarrow> fs_state" where
  "apply_write (always, p, c) s = (if always then writeFile p c s else writeFileIfDifferent p c s)"

definition imports_writes :: "('e, 'j) env \<Rightarrow> config \<Rightarrow> (bool \<times> string \<times> string) list" where
  "imports_writes E cfg =
     (case config_imports cfg of
        None \<Rightarrow> []
      | Some options \<Rightarrow>
          (False, resolve E [typesDir cfg, ''imports.d.ts''], imports_content E) #
          (if eslintrc_enabled options
           then [(True, eslintrc_filePath options,
                  stringifyJson E (own_entries
                    (eslintrc_globals (getImports E) (eslintrc_globalsPropValue options))))]
           else []))"

definition imports_references :: "('e, 'j) env \<Rightarrow> config \<Rightarrow> string list" where
  "imports_references E cfg =
     (case config_imports cfg of
        None \<Rightarrow> []
      | Some options \<Rightarrow> [resolve E [typesDir cfg, ''imports.d.ts'']])"

definition first_writes ::
  "('e, 'j) env \<Rightarrow> config \<Rightarrow> 'e list \<Rightarrow> (bool \<times> string \<times> string) list" where
  "first_writes E cfg entrypoints =
     imports_writes E cfg
     @ [(False, resolve E [typesDir cfg, ''paths.d.ts''], paths_content E cfg entrypoints)]"

definition last_writes ::
  "('e, 'j) env \<Rightarrow> config \<Rightarrow> message list \<Rightarrow> (bool \<times> string \<times> string) list" where
  "last_writes E cfg messages =
     [(False, resolve E [typesDir cfg, ''i18n.d.ts''], i18n_content messages),
      (False, resolve E [typesDir cfg, ''globals.d.ts''], globals_content E),
      (False, resolve E [wxtDir cfg, ''wxt.d.ts''],
         main_content E cfg
           (imports_references E cfg
            @ [resolve E [typesDir cfg, ''paths.d.ts''], resolve E [typesDir cfg, ''i18n.d.ts''],
               resolve E [typesDir cfg, ''globals.d.ts'']])),
      (False, resolve E [wxtDir cfg, ''tsconfig.json''],
         tsconfig_content E cfg (resolve E [wxtDir cfg, ''wxt.d.ts'']))]"

text \<open>The paths a run writes to, and the path it writes to whatever the file holds.\<close>

definition written_paths :: "('e, 'j) env \<Rightarrow> config \<Rightarrow> string list" where
  "written_paths E cfg =
     map (\<lambda>w. fst (snd w)) (imports_writes E cfg)
     @ [resolve E [typesDir cfg, ''paths.d.ts''], resolve E [typesDir cfg, ''i18n.d.ts''],
        resolve E [typesDir cfg, ''globals.d.ts''], resolve E [wxtDir cfg, ''wxt.d.ts''],
        resolve E [wxtDir cfg, ''tsconfig.json'']]"

definition lint_globals_paths :: "config \<Rightarrow> string list" where
  "lint_globals_paths cfg =
     (case config_imports cfg of
        None \<Rightarrow> []
      | Some options \<Rightarrow> if eslintrc_enabled options then [eslintrc_filePath options] else [])"

text \<open>A project with auto-imports and the lint-globals file enabled.\<close>

definition lint_config :: config where
  "lint_config =
     project_config\<lparr>config_imports :=
       Some \<lparr>eslintrc_enabled = True,
             eslintrc_filePath = ''/project/.wxt/eslintrc-auto-import.json'',
             eslintrc_globalsPropValue = GlobalBool True\<rparr>\<rparr>"

definition lint_env :: "(entrypoint, catalog) env" where
  "lint_env = (posix_env [])\<lparr>getImports := [\<lparr>import_name = ''defineBackground'', import_as = None\<rparr>]\<rparr>"

section \<open>Writing and replacing\<close>

lemma files_writeFileIfDifferent: "files (writeFileIfDifferent p c s) p = Some c"
  by (simp add: writeFileIfDifferent_def writeFile_def)

lemma split_first_sound: "split_first pat s = Some (pre, post) \<Longrightarrow> s = pre @ pat @ post"
proof (induction s arbitrary: pre)
  case Nil
  then show ?case by (simp split: if_splits)
next
  case (Cons c cs)
  show ?case
  proof (cases "prefix pat (c # cs)")
    case True
    with Cons.prems have "pre = []" "post = drop (length pat) (c # cs)" by simp_all
    moreover from True obtain r where "c # cs = pat @ r" by (auto simp: prefix_def)
    ultimately show ?thesis by simp
  next
    case False
    with Cons.prems obtain pre' where "split_first pat cs = Some (pre', post)" "pre = c # pre'"
      by auto
    with Cons.IH show ?thesis by simp
  qed
qed

lemma getSubstitution_plain:
  "CHR ''$'' \<notin> set rep \<Longrightarrow> getSubstitution m pre post rep = rep"
  by (induction m pre post rep rule: getSubstitution.induct) auto

section \<open>The union of public paths\<close>

lemma paths_template_split:
  \<open>split_first ''{{ union }}'' paths_template =
     Some (''// Generated by wxt\<newline>import "wxt/browser";\<newline>\<newline>declare module "wxt/browser" {\<newline>  export type PublicPath =\<newline>'',
           ''\<newline>  type HtmlPublicPath = Extract<PublicPath, `${string}.html`>\<newline>  export interface WxtRuntime extends Runtime.Static {\<newline>    getURL(path: PublicPath): string;\<newline>    getURL(path: `${HtmlPublicPath}${string}`): string;\<newline>  }\<newline>}\<newline>'')\<close>
  by (simp add: paths_template_def)

text \<open>
  Claim C3: with no entrypoint and no public file, the paths declaration file that is
  written declares the union as \<^verbatim>\<open>| never\<close>, inside the unchanged template, so the file
  stays a valid declaration.
\<close>

theorem empty_union_renders_never:
  \<open>files (snd (writePathsDeclarationFile (E\<lparr>getPublicFiles := []\<rparr>) cfg [] s))
       (fst (writePathsDeclarationFile (E\<lparr>getPublicFiles := []\<rparr>) cfg [] s)) =
     Some (''// Generated by wxt\<newline>'' @
           ''import "wxt/browser";\<newline>'' @
           ''\<newline>'' @
           ''declare module "wxt/browser" {\<newline>'' @
           ''  export type PublicPath =\<newline>'' @
           ''    | never\<newline>'' @
           ''  type HtmlPublicPath = Extract<PublicPath, `${string}.html`>\<newline>'' @
           ''  export interface WxtRuntime extends Runtime.Static {\<newline>'' @
           ''    getURL(path: PublicPath): string;\<newline>'' @
           ''    getURL(path: `${HtmlPublicPath}${string}`): string;\<newline>'' @
           ''  }\<newline>'' @
           ''}\<newline>'')\<close>
  by (simp add: writePathsDeclarationFile_def Let_def files_writeFileIfDifferent paths_content_def
      unions_def union_lines_def js_replace_def paths_template_split)

theorem empty_union_renders_never_witness:
  \<open>files (snd (writePathsDeclarationFile (posix_env []) project_config [] empty_fs))
       ''/project/.wxt/types/paths.d.ts'' =
     Some (''// Generated by wxt\<newline>'' @
           ''import "wxt/browser";\<newline>'' @
           ''\<newline>'' @
           ''declare module "wxt/browser" {\<newline>'' @
           ''  export type PublicPath =\<newline>'' @
           ''    | never\<newline>'' @
           ''  type HtmlPublicPath = Extract<PublicPath, `${string}.html`>\<newline>'' @
           ''  export interface WxtRuntime extends Runtime.Static {\<newline>'' @
           ''    getURL(path: PublicPath): string;\<newline>'' @
           ''    getURL(path: `${HtmlPublicPath}${string}`): string;\<newline>'' @
           ''  }\<newline>'' @
           ''}\<newline>'')\<close>
  using empty_union_renders_never [of "posix_env []" project_config empty_fs]
  by (simp add: posix_env_def writePathsDeclarationFile_def project_config_def posix_resolve_def Let_def)

text \<open>
  The lines of the union are sorted after they are quoted, and none is dropped: the
  sorted list is a permutation of the quoted paths. When the joined lines hold no dollar
  sign, they stand in the file as they are.
\<close>

lemma union_lines_sorted: "sorted (union_lines E cfg entrypoints)"
  by (simp add: union_lines_def)

lemma union_lines_mset:
  "mset (union_lines E cfg entrypoints) =
     mset (map (\<lambda>path. union_line (normalizePath E path))
       (map (\<lambda>entry. getEntrypointBundlePath E entry (outDir cfg)
               (if isHtmlEntrypoint E entry then ''.html'' else ''.js'')) entrypoints
        @ getPublicFiles E))"
  by (simp add: union_lines_def comp_def)

lemma paths_content_without_dollar:
  assumes "unions E cfg entrypoints \<noteq> []" and "CHR ''$'' \<notin> set (unions E cfg entrypoints)"
  shows \<open>paths_content E cfg entrypoints =
     ''// Generated by wxt\<newline>import "wxt/browser";\<newline>\<newline>declare module "wxt/browser" {\<newline>  export type PublicPath =\<newline>''
     @ unions E cfg entrypoints @
     ''\<newline>  type HtmlPublicPath = Extract<PublicPath, `${string}.html`>\<newline>  export interface WxtRuntime extends Runtime.Static {\<newline>    getURL(path: PublicPath): string;\<newline>    getURL(path: `${HtmlPublicPath}${string}`): string;\<newline>  }\<newline>}\<newline>''\<close>
  using assms
  by (simp add: paths_content_def js_replace_def paths_template_split getSubstitution_plain)

lemma spec_example_union:
  \<open>union_lines ((posix_env [])\<lparr>getPublicFiles := [''icon.png'']\<rparr>) project_config
      [\<lparr>entry_name = ''popup'', entry_html = True\<rparr>,
       \<lparr>entry_name = ''background'', entry_html = False\<rparr>] =
     [''    | "/background.js"'', ''    | "/icon.png"'', ''    | "/popup.html"'']\<close>
  by (simp add: union_lines_def union_line_def posix_env_def bundle_path_def
      normalize_separators_def)

text \<open>
  Claim C2: the union of the paths declaration file has one member per entrypoint and per
  public file, the quoted path itself. The file does not keep a path that holds
  \<^verbatim>\<open>$$\<close>: for the public file \<^verbatim>\<open>a$$b.png\<close> the line that is built is
  \<^verbatim>\<open>| "/a$$b.png"\<close>, and the line of the file written is \<^verbatim>\<open>| "/a$b.png"\<close>, because
  \<^verbatim>\<open>replace\<close> expands the dollar patterns of its replacement text.
\<close>

theorem dollar_in_public_path_is_rewritten:
  \<open>union_lines ((posix_env [])\<lparr>getPublicFiles := [''a$$b.png'']\<rparr>) project_config [] =
      [''    | "/a$$b.png"''] \<and>
    files (snd (writePathsDeclarationFile ((posix_env [])\<lparr>getPublicFiles := [''a$$b.png'']\<rparr>)
                  project_config [] empty_fs)) ''/project/.wxt/types/paths.d.ts'' =
      Some (''// Generated by wxt\<newline>'' @
      ''import "wxt/browser";\<newline>'' @
      ''\<newline>'' @
      ''declare module "wxt/browser" {\<newline>'' @
      ''  export type PublicPath =\<newline>'' @
      ''    | "/a$b.png"\<newline>'' @
      ''  type HtmlPublicPath = Extract<PublicPath, `${string}.html`>\<newline>'' @
      ''  export interface WxtRuntime extends Runtime.Static {\<newline>'' @
      ''    getURL(path: PublicPath): string;\<newline>'' @
      ''    getURL(path: `${HtmlPublicPath}${string}`): string;\<newline>'' @
      ''  }\<newline>'' @
      ''}\<newline>'')\<close>
  by (simp add: writePathsDeclarationFile_def Let_def files_writeFileIfDifferent
      paths_content_def unions_def union_lines_def union_line_def js_replace_def
      paths_template_split posix_env_def normalize_separators_def project_config_def
      posix_resolve_def)

section \<open>The references of the root declaration file\<close>

text \<open>
  Claim C4: after the fixed lines and the references to the generated files, the root
  declaration file has one reference directive for each module that is installed from a
  package (\<^verbatim>\<open>node_module\<close>) and has a configuration key, in the order of the modules,
  and no directive for another module.
\<close>

theorem module_references_filtered:
  \<open>main_lines E cfg references =
     [''// Generated by wxt'', ''/// <reference types="wxt/vite-builder-env" />'']
     @ map (\<lambda>ref. ''/// <reference types="./'' @ normalizePath E (relative E (wxtDir cfg) ref) @ ''" />'')
         references
     @ map (\<lambda>m. ''/// <reference types="'' @ module_id m @ ''" />'')
         (filter (\<lambda>m. module_type m = NodeModule \<and> module_configKey m \<noteq> None) (modules cfg))
   \<and> files (snd (writeMainDeclarationFile E cfg references s))
         (fst (writeMainDeclarationFile E cfg references s)) =
       Some (js_join ''\<newline>'' (main_lines E cfg references) @ ''\<newline>'')\<close>
  by (simp add: main_lines_def module_references_def writeMainDeclarationFile_def Let_def
      files_writeFileIfDifferent main_content_def file_reference_def [abs_def]
      module_reference_def [abs_def] needs_reference_def [abs_def])

theorem module_references_filtered_witness:
  \<open>files (snd (writeMainDeclarationFile (posix_env [])
       (project_config\<lparr>modules :=
          [\<lparr>module_id = ''a'', module_type = NodeModule, module_configKey = Some ''a''\<rparr>,
           \<lparr>module_id = ''b'', module_type = NodeModule, module_configKey = None\<rparr>,
           \<lparr>module_id = ''c'', module_type = Local, module_configKey = Some ''c''\<rparr>]\<rparr>)
       [''/project/.wxt/types/paths.d.ts''] empty_fs)) ''/project/.wxt/wxt.d.ts'' =
     Some (''// Generated by wxt\<newline>'' @
           ''/// <reference types="wxt/vite-builder-env" />\<newline>'' @
           ''/// <reference types="./types/paths.d.ts" />\<newline>'' @
           ''/// <reference types="a" />\<newline>'')\<close>
  using module_references_filtered [of "posix_env []"
       "project_config\<lparr>modules :=
          [\<lparr>module_id = ''a'', module_type = NodeModule, module_configKey = Some ''a''\<rparr>,
           \<lparr>module_id = ''b'', module_type = NodeModule, module_configKey = None\<rparr>,
           \<lparr>module_id = ''c'', module_type = Local, module_configKey = Some ''c''\<rparr>]\<rparr>"
       "[''/project/.wxt/types/paths.d.ts'']" empty_fs]
  by (simp add: writeMainDeclarationFile_def Let_def posix_env_def project_config_def
      posix_resolve_def posix_relative_def normalize_separators_def)

section \<open>The path map of the project descriptor\<close>

text \<open>
  Claim C5: the path map of the project descriptor has two entries for each alias of the
  table, in the order of the table: the alias itself, mapped to the target made relative
  to the directory of the descriptor and normalized, and the alias followed by \<^verbatim>\<open>/*\<close>,
  mapped to the same path followed by \<^verbatim>\<open>/*\<close>. The entries are joined by a comma and a
  line break inside the \<^verbatim>\<open>paths\<close> object of the file that is written.
\<close>

theorem alias_yields_two_path_entries:
  \<open>paths_lines E cfg =
     concat (map (\<lambda>(alias, absolutePath).
        [''      "'' @ alias @ ''": ["'' @ normalizePath E (relative E (wxtDir cfg) absolutePath) @ ''"]'',
         ''      "'' @ alias @ ''/*": ["'' @ normalizePath E (relative E (wxtDir cfg) absolutePath) @ ''/*"]''])
       (alias_entries cfg))
   \<and> length (paths_lines E cfg) = 2 * length (alias_entries cfg)
   \<and> files (writeTsConfigFile E cfg mainReference s) (resolve E [wxtDir cfg, ''tsconfig.json'']) =
       Some (''{\<newline>'' @
             ''  "compilerOptions": {\<newline>'' @
             ''    "target": "ESNext",\<newline>'' @
             ''    "module": "ESNext",\<newline>'' @
             ''    "moduleResolution": "Bundler",\<newline>'' @
             ''    "noEmit": true,\<newline>'' @
             ''    "esModuleInterop": true,\<newline>'' @
             ''    "forceConsistentCasingInFileNames": true,\<newline>'' @
             ''    "resolveJsonModule": true,\<newline>'' @
             ''    "strict": true,\<newline>'' @
             ''    "skipLibCheck": true,\<newline>'' @
             ''    "paths": {\<newline>'' @
             js_join '',\<newline>'' (paths_lines E cfg) @ ''\<newline>'' @
             ''    }\<newline>'' @
             ''  },\<newline>'' @
             ''  "include": [\<newline>'' @
             ''    "'' @ normalizePath E (relative E (wxtDir cfg) (root cfg)) @ ''/**/*",\<newline>'' @
             ''    "./'' @ normalizePath E (relative E (wxtDir cfg) mainReference) @ ''"\<newline>'' @
             ''  ],\<newline>'' @
             ''  "exclude": ["'' @ normalizePath E (relative E (wxtDir cfg) (outBaseDir cfg)) @ ''"]\<newline>'' @
             ''}'')\<close>
proof -
  have lines: \<open>paths_lines E cfg =
     concat (map (\<lambda>(alias, absolutePath).
        [''      "'' @ alias @ ''": ["'' @ normalizePath E (relative E (wxtDir cfg) absolutePath) @ ''"]'',
         ''      "'' @ alias @ ''/*": ["'' @ normalizePath E (relative E (wxtDir cfg) absolutePath) @ ''/*"]''])
       (alias_entries cfg))\<close>
    by (simp add: paths_lines_def alias_lines_def [abs_def] getTsconfigPath_def Let_def
        split_def)
  have len: "length (paths_lines E cfg) = 2 * length (alias_entries cfg)"
    unfolding paths_lines_def
    by (induction "alias_entries cfg" arbitrary: cfg)
       (simp_all add: alias_lines_def Let_def length_concat comp_def sum_list_triv)
  have written: "files (writeTsConfigFile E cfg mainReference s) (resolve E [wxtDir cfg, ''tsconfig.json'']) =
       Some (tsconfig_content E cfg mainReference)"
    by (simp add: writeTsConfigFile_def files_writeFileIfDifferent)
  show ?thesis
    unfolding written
    by (simp only: lines [symmetric] len tsconfig_content_def tsconfig_paths_def
         getTsconfigPath_def simp_thms)
qed

theorem alias_yields_two_path_entries_witness:
  \<open>paths_lines (posix_env [])
      (project_config\<lparr>wxtDir := ''/project'', alias_entries := [(''@'', ''/project/src'')]\<rparr>) =
     [''      "@": ["src"]'', ''      "@/*": ["src/*"]'']\<close>
  using alias_yields_two_path_entries [of "posix_env []"
      "project_config\<lparr>wxtDir := ''/project'', alias_entries := [(''@'', ''/project/src'')]\<rparr>"
      "''/project/wxt.d.ts''" empty_fs]
  by (simp add: posix_env_def project_config_def posix_relative_def normalize_separators_def)

section \<open>The members of the environment interface\<close>

text \<open>The later member wins, so a list of members gives way to the list that follows it.\<close>

lemma effective_type_append:
  "effective_type (before @ after) x =
     (case effective_type after x of Some t \<Rightarrow> Some t | None \<Rightarrow> effective_type before x)"
  by (induction before) (auto split: option.splits)

lemma effective_type_defined:
  "g \<in> set members \<Longrightarrow> effective_type members (global_name g) \<noteq> None"
  by (induction members) (auto split: option.splits)

text \<open>
  Claim C6: the globals declaration file has one member per global, made of its name and
  its type, for the globals of the build mode followed by the globals of the entrypoint
  context, in this order and with nothing dropped. Every member of the build mode stands
  before every member of the entrypoint context, so, of two members of the same name,
  the one of the entrypoint context is the later one: under the rule that the later
  member wins, the effective type of a name that the entrypoint context defines is the
  type the entrypoint context gives it, whatever the build mode gives it, and a name the
  entrypoint context does not define keeps the type of the build mode.
\<close>

theorem globals_in_concatenation_order:
  \<open>globals_lines E =
     [''// Generated by wxt'', ''export {}'', ''interface ImportMetaEnv {'']
     @ map (\<lambda>g. ''  readonly '' @ global_name g @ '': '' @ global_type g @ '';'')
         (getGlobals E @ getEntrypointGlobals E)
     @ [''}'', ''interface ImportMeta {'', ''  readonly env: ImportMetaEnv'', ''}'']
   \<and> files (snd (writeGlobalsDeclarationFile E cfg s)) (fst (writeGlobalsDeclarationFile E cfg s)) =
       Some (js_join ''\<newline>'' (globals_lines E) @ ''\<newline>'')
   \<and> (\<forall>i < length (getGlobals E). \<forall>j < length (getEntrypointGlobals E).
         globals_lines E ! (3 + i) = global_member (getGlobals E ! i)
       \<and> globals_lines E ! (3 + length (getGlobals E) + j) = global_member (getEntrypointGlobals E ! j))
   \<and> (\<forall>x. effective_type (getGlobals E @ getEntrypointGlobals E) x =
         (case effective_type (getEntrypointGlobals E) x of
            Some t \<Rightarrow> Some t
          | None \<Rightarrow> effective_type (getGlobals E) x))
   \<and> (\<forall>g \<in> set (getEntrypointGlobals E).
         effective_type (getEntrypointGlobals E) (global_name g) \<noteq> None
       \<and> effective_type (getGlobals E @ getEntrypointGlobals E) (global_name g) =
           effective_type (getEntrypointGlobals E) (global_name g))\<close>
proof -
  have lines: \<open>globals_lines E =
     [''// Generated by wxt'', ''export {}'', ''interface ImportMetaEnv {'']
     @ map (\<lambda>g. ''  readonly '' @ global_name g @ '': '' @ global_type g @ '';'')
         (getGlobals E @ getEntrypointGlobals E)
     @ [''}'', ''interface ImportMeta {'', ''  readonly env: ImportMetaEnv'', ''}'']\<close>
    by (simp add: globals_lines_def global_member_def [abs_def])
  have written: "files (snd (writeGlobalsDeclarationFile E cfg s)) (fst (writeGlobalsDeclarationFile E cfg s)) =
       Some (js_join ''\<newline>'' (globals_lines E) @ ''\<newline>'')"
    by (simp add: writeGlobalsDeclarationFile_def Let_def files_writeFileIfDifferent
        globals_content_def)
  have shape: "globals_lines E =
      [''// Generated by wxt'', ''export {}'', ''interface ImportMetaEnv {'']
      @ (map global_member (getGlobals E) @ map global_member (getEntrypointGlobals E)
      @ [''}'', ''interface ImportMeta {'', ''  readonly env: ImportMetaEnv'', ''}''])"
    by (simp add: globals_lines_def)
  have order: "\<forall>i < length (getGlobals E). \<forall>j < length (getEntrypointGlobals E).
         globals_lines E ! (3 + i) = global_member (getGlobals E ! i)
       \<and> globals_lines E ! (3 + length (getGlobals E) + j) = global_member (getEntrypointGlobals E ! j)"
    by (simp add: shape nth_append)
  have merge: "\<forall>x. effective_type (getGlobals E @ getEntrypointGlobals E) x =
         (case effective_type (getEntrypointGlobals E) x of
            Some t \<Rightarrow> Some t
          | None \<Rightarrow> effective_type (getGlobals E) x)"
    by (simp add: effective_type_append)
  have later: "\<forall>g \<in> set (getEntrypointGlobals E).
         effective_type (getEntrypointGlobals E) (global_name g) \<noteq> None
       \<and> effective_type (getGlobals E @ getEntrypointGlobals E) (global_name g) =
           effective_type (getEntrypointGlobals E) (global_name g)"
  proof
    fix g assume "g \<in> set (getEntrypointGlobals E)"
    then have "effective_type (getEntrypointGlobals E) (global_name g) \<noteq> None"
      by (rule effective_type_defined)
    then show "effective_type (getEntrypointGlobals E) (global_name g) \<noteq> None
       \<and> effective_type (getGlobals E @ getEntrypointGlobals E) (global_name g) =
           effective_type (getEntrypointGlobals E) (global_name g)"
      by (auto simp: effective_type_append)
  qed
  show ?thesis
    by (intro conjI) (rule lines written order merge later)+
qed

theorem globals_in_concatenation_order_witness:
  \<open>files (snd (writeGlobalsDeclarationFile
       ((posix_env [])\<lparr>getGlobals := [\<lparr>global_name = ''X'', global_type = ''string''\<rparr>],
                        getEntrypointGlobals := [\<lparr>global_name = ''X'', global_type = ''number''\<rparr>]\<rparr>)
       project_config empty_fs)) ''/project/.wxt/types/globals.d.ts'' =
     Some (''// Generated by wxt\<newline>'' @
           ''export {}\<newline>'' @
           ''interface ImportMetaEnv {\<newline>'' @
           ''  readonly X: string;\<newline>'' @
           ''  readonly X: number;\<newline>'' @
           ''}\<newline>'' @
           ''interface ImportMeta {\<newline>'' @
           ''  readonly env: ImportMetaEnv\<newline>'' @
           ''}\<newline>'')
   \<and> globals_lines
       ((posix_env [])\<lparr>getGlobals := [\<lparr>global_name = ''X'', global_type = ''string''\<rparr>],
                        getEntrypointGlobals := [\<lparr>global_name = ''X'', global_type = ''number''\<rparr>]\<rparr>)
       ! (3 + 0) = ''  readonly X: string;''
   \<and> globals_lines
       ((posix_env [])\<lparr>getGlobals := [\<lparr>global_name = ''X'', global_type = ''string''\<rparr>],
                        getEntrypointGlobals := [\<lparr>global_name = ''X'', global_type = ''number''\<rparr>]\<rparr>)
       ! (3 + 1 + 0) = ''  readonly X: number;''
   \<and> effective_type
       ([\<lparr>global_name = ''X'', global_type = ''string''\<rparr>]
        @ [\<lparr>global_name = ''X'', global_type = ''number''\<rparr>]) ''X'' = Some ''number''\<close>
  using globals_in_concatenation_order [of
       "(posix_env [])\<lparr>getGlobals := [\<lparr>global_name = ''X'', global_type = ''string''\<rparr>],
                        getEntrypointGlobals := [\<lparr>global_name = ''X'', global_type = ''number''\<rparr>]\<rparr>"
       project_config empty_fs]
  by (simp add: writeGlobalsDeclarationFile_def Let_def posix_env_def project_config_def
      posix_resolve_def global_member_def)

section \<open>The overloads of the localization declaration file\<close>

text \<open>
  What the expansion of the replacement text keeps: a piece of the replacement that holds
  no dollar sign and does not start with the second character of a dollar pattern stands
  in the result as it is.
\<close>

lemma getSubstitution_plain_prefix:
  "CHR ''$'' \<notin> set t \<Longrightarrow> getSubstitution m p q (t @ b) = t @ getSubstitution m p q b"
proof (induction t)
  case Nil
  then show ?case by simp
next
  case (Cons c t)
  then have c: "c \<noteq> CHR ''$''" and IH: "getSubstitution m p q (t @ b) = t @ getSubstitution m p q b"
    by auto
  show ?case
  proof (cases "t @ b")
    case Nil
    then show ?thesis by simp
  next
    case (Cons d r)
    with c have "getSubstitution m p q (c # t @ b) = c # getSubstitution m p q (t @ b)"
      by simp
    with IH show ?thesis by simp
  qed
qed

lemma getSubstitution_suffix:
  assumes "u \<noteq> []" and "hd u \<notin> {CHR ''$'', CHR ''&'', CHR 0x60, CHR 0x27}"
  shows "\<exists>X. getSubstitution m p q (a @ u) = X @ getSubstitution m p q u"
  using assms
proof (induction m p q a rule: getSubstitution.induct)
  case (1 matched pre post)
  then show ?case by simp
next
  case (2 matched pre post c)
  then obtain h t where u: "u = h # t" by (cases u) auto
  with 2 have "getSubstitution matched pre post ([c] @ u) = [c] @ getSubstitution matched pre post u"
    by auto
  then show ?case by blast
next
  case (3 matched pre post c d r)
  let ?special = "c = CHR ''$'' \<and> d \<in> {CHR ''$'', CHR ''&'', CHR 0x60, CHR 0x27}"
  show ?case
  proof (cases ?special)
    case True
    then obtain X where X: "getSubstitution matched pre post (r @ u) = X @ getSubstitution matched pre post u"
      using 3 by auto
    from True obtain Z where "getSubstitution matched pre post ((c # d # r) @ u) =
        Z @ getSubstitution matched pre post (r @ u)"
      by auto
    with X show ?thesis by (metis append.assoc)
  next
    case False
    then obtain X where X: "getSubstitution matched pre post ((d # r) @ u) = X @ getSubstitution matched pre post u"
      using 3 by auto
    from False have "getSubstitution matched pre post ((c # d # r) @ u) =
        c # getSubstitution matched pre post ((d # r) @ u)"
      by auto
    with X show ?thesis by (metis append_Cons)
  qed
qed

lemma getSubstitution_keeps:
  assumes "CHR ''$'' \<notin> set t" and "t \<noteq> []"
    and "hd t \<notin> {CHR ''$'', CHR ''&'', CHR 0x60, CHR 0x27}"
  shows "\<exists>X Y. getSubstitution m p q (a @ t @ b) = X @ t @ Y"
proof -
  from assms have "t @ b \<noteq> []" "hd (t @ b) \<notin> {CHR ''$'', CHR ''&'', CHR 0x60, CHR 0x27}"
    by simp_all
  then obtain X where "getSubstitution m p q (a @ t @ b) = X @ getSubstitution m p q (t @ b)"
    using getSubstitution_suffix by blast
  with assms(1) show ?thesis
    by (auto simp: getSubstitution_plain_prefix)
qed

lemma js_join_member: "x \<in> set xs \<Longrightarrow> \<exists>a b. js_join sep xs = a @ x @ b"
proof (induction sep xs rule: js_join.induct)
  case (1 sep)
  then show ?case by simp
next
  case (2 sep y)
  then have "js_join sep [y] = [] @ x @ []" by simp
  then show ?case by blast
next
  case (3 sep y z zs)
  show ?case
  proof (cases "x = y")
    case True
    then have "js_join sep (y # z # zs) = [] @ x @ (sep @ js_join sep (z # zs))" by simp
    then show ?thesis by blast
  next
    case False
    with 3 obtain a b where "js_join sep (z # zs) = a @ x @ b" by auto
    then have "js_join sep (y # z # zs) = (y @ sep @ a) @ x @ b" by simp
    then show ?thesis by blast
  qed
qed

lemma i18n_template_split:
  \<open>split_first ''{{ overrides }}'' i18n_template =
     Some (''// Generated by wxt\<newline>import "wxt/browser";\<newline>\<newline>declare module "wxt/browser" {\<newline>  /**\<newline>   * See https://developer.chrome.com/docs/extensions/reference/i18n/#method-getMessage\<newline>   */\<newline>  interface GetMessageOptions {\<newline>    /**\<newline>     * See https://developer.chrome.com/docs/extensions/reference/i18n/#method-getMessage\<newline>     */\<newline>    escapeLt?: boolean\<newline>  }\<newline>\<newline>  export interface WxtI18n extends I18n.Static {\<newline>'',
           ''\<newline>  }\<newline>}\<newline>'')\<close>
  by (simp add: i18n_template_def)

lemma i18n_content_keeps:
  assumes "m \<in> set messages" and "override m = a @ t @ b"
    and "CHR ''$'' \<notin> set t" and "t \<noteq> []"
    and "hd t \<notin> {CHR ''$'', CHR ''&'', CHR 0x60, CHR 0x27}"
  shows "sublist t (i18n_content messages)"
proof -
  from assms(1) have "override m \<in> set (overrides messages)"
    by (simp add: overrides_def)
  then obtain a' b' where "js_join ''\<newline>'' (overrides messages) = a' @ override m @ b'"
    using js_join_member by blast
  with assms(2) have r: "js_join ''\<newline>'' (overrides messages) = (a' @ a) @ t @ (b @ b')"
    by simp
  obtain pre post where sp: "split_first ''{{ overrides }}'' i18n_template = Some (pre, post)"
    using i18n_template_split by blast
  obtain X Y where "getSubstitution ''{{ overrides }}'' pre post ((a' @ a) @ t @ (b @ b')) = X @ t @ Y"
    using getSubstitution_keeps [OF assms(3-5)] by blast
  with r sp have "i18n_content messages = (pre @ X) @ t @ (Y @ post)"
    by (simp add: i18n_content_def js_replace_def)
  then show ?thesis
    unfolding sublist_def by blast
qed

lemma load_messages_written:
  "load_messages E cfg s = Inr messages \<Longrightarrow>
     fst (writeI18nDeclarationFile E cfg s) = Inr (resolve E [typesDir cfg, ''i18n.d.ts''])
   \<and> files (snd (writeI18nDeclarationFile E cfg s)) (resolve E [typesDir cfg, ''i18n.d.ts'']) =
       Some (i18n_content messages)"
  by (simp add: writeI18nDeclarationFile_def Let_def files_writeFileIfDifferent)

text \<open>
  There is one overload per message, in the order of the messages. When the joined
  overloads hold no dollar sign, they stand in the file as they are.
\<close>

lemma overrides_one_per_message:
  "length (overrides messages) = length messages
   \<and> (\<forall>i < length messages. overrides messages ! i = override (messages ! i))"
  by (simp add: overrides_def)

lemma i18n_content_without_dollar:
  assumes "CHR ''$'' \<notin> set (js_join ''\<newline>'' (overrides messages))"
  shows \<open>i18n_content messages =
     ''// Generated by wxt\<newline>import "wxt/browser";\<newline>\<newline>declare module "wxt/browser" {\<newline>  /**\<newline>   * See https://developer.chrome.com/docs/extensions/reference/i18n/#method-getMessage\<newline>   */\<newline>  interface GetMessageOptions {\<newline>    /**\<newline>     * See https://developer.chrome.com/docs/extensions/reference/i18n/#method-getMessage\<newline>     */\<newline>    escapeLt?: boolean\<newline>  }\<newline>\<newline>  export interface WxtI18n extends I18n.Static {\<newline>''
     @ js_join ''\<newline>'' (overrides messages) @ ''\<newline>  }\<newline>}\<newline>''\<close>
  using assms
  by (simp add: i18n_content_def js_replace_def i18n_template_split getSubstitution_plain)

lemma spec_example_overload:
  \<open>overrides [\<lparr>msg_name = ''greet'', msg_message = ''Hi {{name}}'', msg_description = Some ''greeting''\<rparr>] =
     [''    /**\<newline>'' @
      ''     * greeting\<newline>'' @
      ''     *\<newline>'' @
      ''     * "Hi {{name}}"\<newline>'' @
      ''     */\<newline>'' @
      ''    getMessage(\<newline>'' @
      ''      messageName: "greet",\<newline>'' @
      ''      substitutions?: string | string[],\<newline>'' @
      ''      options?: GetMessageOptions,\<newline>'' @
      ''    ): string;'']\<close>
  by (simp add: overrides_def override_def description_or_default_def)

text \<open>
  Claim C7: the localization declaration file has one overload of \<^verbatim>\<open>getMessage\<close> per
  message, in the order of the parser, with the name of the message as the literal
  parameter and with the description and the text of the message in the comment. The
  file does not keep a message text that holds \<^verbatim>\<open>$$\<close>: for the message
  \<^verbatim>\<open>Cost: $$5\<close> the overload that is built documents \<^verbatim>\<open>"Cost: $$5"\<close>, and the file
  written documents \<^verbatim>\<open>"Cost: $5"\<close>, because \<^verbatim>\<open>replace\<close> expands the dollar patterns of
  its replacement text.
\<close>

theorem dollar_in_message_is_rewritten:
  \<open>overrides [\<lparr>msg_name = ''price'', msg_message = ''Cost: $$5'', msg_description = Some ''The price''\<rparr>] =
     [''    /**\<newline>'' @
      ''     * The price\<newline>'' @
      ''     *\<newline>'' @
      ''     * "Cost: $$5"\<newline>'' @
      ''     */\<newline>'' @
      ''    getMessage(\<newline>'' @
      ''      messageName: "price",\<newline>'' @
      ''      substitutions?: string | string[],\<newline>'' @
      ''      options?: GetMessageOptions,\<newline>'' @
      ''    ): string;'']
   \<and> files (snd (writeI18nDeclarationFile
        (posix_env [(''{"price": {"message": "Cost: $$5", "description": "The price"}}'',
                     [(''price'', ''Cost: $$5'', Some ''The price'')])])
        (project_config\<lparr>default_locale := Some ''en''\<rparr>)
        (fs_with_catalog ''{"price": {"message": "Cost: $$5", "description": "The price"}}'')))
      ''/project/.wxt/types/i18n.d.ts'' =
    Some (''// Generated by wxt\<newline>'' @
     ''import "wxt/browser";\<newline>'' @
     ''\<newline>'' @
     ''declare module "wxt/browser" {\<newline>'' @
     ''  /**\<newline>'' @
     ''   * See https://developer.chrome.com/docs/extensions/reference/i18n/#method-getMessage\<newline>'' @
     ''   */\<newline>'' @
     ''  interface GetMessageOptions {\<newline>'' @
     ''    /**\<newline>'' @
     ''     * See https://developer.chrome.com/docs/extensions/reference/i18n/#method-getMessage\<newline>'' @
     ''     */\<newline>'' @
     ''    escapeLt?: boolean\<newline>'' @
     ''  }\<newline>'' @
     ''\<newline>'' @
     ''  export interface WxtI18n extends I18n.Static {\<newline>'' @
     ''    /**\<newline>'' @
     ''     * The price\<newline>'' @
     ''     *\<newline>'' @
     ''     * "Cost: $5"\<newline>'' @
     ''     */\<newline>'' @
     ''    getMessage(\<newline>'' @
     ''      messageName: "price",\<newline>'' @
     ''      substitutions?: string | string[],\<newline>'' @
     ''      options?: GetMessageOptions,\<newline>'' @
     ''    ): string;\<newline>'' @
     ''  }\<newline>'' @
     ''}\<newline>'')\<close>
proof -
  let ?text = \<open>''{"price": {"message": "Cost: $$5", "description": "The price"}}''\<close>
  let ?E = "posix_env [(?text, [(''price'', ''Cost: $$5'', Some ''The price'')])]"
  let ?cfg = "project_config\<lparr>default_locale := Some ''en''\<rparr>"
  let ?m = "\<lparr>msg_name = ''price'', msg_message = ''Cost: $$5'', msg_description = Some ''The price''\<rparr>"
  have l: "load_messages ?E ?cfg (fs_with_catalog ?text) = Inr [?m]"
    by (simp add: load_messages_def defaultLocalePath_def readFile_def fs_with_catalog_def
        posix_env_def project_config_def posix_resolve_def parse_catalog_def)
  have "files (snd (writeI18nDeclarationFile ?E ?cfg (fs_with_catalog ?text)))
          (resolve ?E [typesDir ?cfg, ''i18n.d.ts'']) = Some (i18n_content [?m])"
    using load_messages_written [OF l] by simp
  then show ?thesis
    by (simp add: i18n_content_def overrides_def override_def description_or_default_def
        js_replace_def i18n_template_split posix_env_def project_config_def posix_resolve_def)
qed

text \<open>
  Claim C10: a message whose description is absent or empty gets an overload whose
  comment reads \<^verbatim>\<open>No message description.\<close> where the description would stand, the
  file that is written holds this comment, and the description line of no overload is
  empty.
\<close>

theorem missing_description_uses_fallback:
  assumes "load_messages E cfg s = Inr messages" and "m \<in> set messages"
    and "msg_description m = None \<or> msg_description m = Some []"
  shows \<open>override m =
       ''    /**\<newline>'' @
       ''     * No message description.\<newline>'' @
       ''     *\<newline>'' @
       ''     * "'' @ msg_message m @ ''"\<newline>'' @
       ''     */\<newline>'' @
       ''    getMessage(\<newline>'' @
       ''      messageName: "'' @ msg_name m @ ''",\<newline>'' @
       ''      substitutions?: string | string[],\<newline>'' @
       ''      options?: GetMessageOptions,\<newline>'' @
       ''    ): string;''
   \<and> (\<exists>content.
         fst (writeI18nDeclarationFile E cfg s) = Inr (resolve E [typesDir cfg, ''i18n.d.ts''])
       \<and> files (snd (writeI18nDeclarationFile E cfg s)) (resolve E [typesDir cfg, ''i18n.d.ts'']) =
           Some content
       \<and> sublist (''    /**\<newline>'' @ ''     * No message description.\<newline>'' @ ''     *\<newline>'') content)
   \<and> (\<forall>m' \<in> set messages. description_or_default m' \<noteq> [])\<close>
proof (intro conjI)
  from assms(3) have d: "description_or_default m = ''No message description.''"
    by (auto simp: description_or_default_def)
  then show ov: \<open>override m =
       ''    /**\<newline>'' @
       ''     * No message description.\<newline>'' @
       ''     *\<newline>'' @
       ''     * "'' @ msg_message m @ ''"\<newline>'' @
       ''     */\<newline>'' @
       ''    getMessage(\<newline>'' @
       ''      messageName: "'' @ msg_name m @ ''",\<newline>'' @
       ''      substitutions?: string | string[],\<newline>'' @
       ''      options?: GetMessageOptions,\<newline>'' @
       ''    ): string;''\<close>
    by (simp add: override_def)
  let ?t = \<open>''    /**\<newline>'' @ ''     * No message description.\<newline>'' @ ''     *\<newline>''\<close>
  have "\<exists>b. override m = [] @ ?t @ b"
    unfolding ov by simp
  then obtain b where "override m = [] @ ?t @ b" ..
  then have "sublist ?t (i18n_content messages)"
    by (rule i18n_content_keeps [OF assms(2)]) simp_all
  with load_messages_written [OF assms(1)]
  show \<open>\<exists>content.
         fst (writeI18nDeclarationFile E cfg s) = Inr (resolve E [typesDir cfg, ''i18n.d.ts''])
       \<and> files (snd (writeI18nDeclarationFile E cfg s)) (resolve E [typesDir cfg, ''i18n.d.ts'']) =
           Some content
       \<and> sublist (''    /**\<newline>'' @ ''     * No message description.\<newline>'' @ ''     *\<newline>'') content\<close>
    by blast
  show "\<forall>m' \<in> set messages. description_or_default m' \<noteq> []"
    by (auto simp: description_or_default_def split: option.splits)
qed

theorem missing_description_uses_fallback_witness:
  \<open>files (snd (writeI18nDeclarationFile
        (posix_env [(''{"bye": {"message": "Bye"}}'', [(''bye'', ''Bye'', None)])])
        (project_config\<lparr>default_locale := Some ''en''\<rparr>)
        (fs_with_catalog ''{"bye": {"message": "Bye"}}'')))
      ''/project/.wxt/types/i18n.d.ts'' =
    Some (''// Generated by wxt\<newline>'' @
     ''import "wxt/browser";\<newline>'' @
     ''\<newline>'' @
     ''declare module "wxt/browser" {\<newline>'' @
     ''  /**\<newline>'' @
     ''   * See https://developer.chrome.com/docs/extensions/reference/i18n/#method-getMessage\<newline>'' @
     ''   */\<newline>'' @
     ''  interface GetMessageOptions {\<newline>'' @
     ''    /**\<newline>'' @
     ''     * See https://developer.chrome.com/docs/extensions/reference/i18n/#method-getMessage\<newline>'' @
     ''     */\<newline>'' @
     ''    escapeLt?: boolean\<newline>'' @
     ''  }\<newline>'' @
     ''\<newline>'' @
     ''  export interface WxtI18n extends I18n.Static {\<newline>'' @
     ''    /**\<newline>'' @
     ''     * No message description.\<newline>'' @
     ''     *\<newline>'' @
     ''     * "Bye"\<newline>'' @
     ''     */\<newline>'' @
     ''    getMessage(\<newline>'' @
     ''      messageName: "bye",\<newline>'' @
     ''      substitutions?: string | string[],\<newline>'' @
     ''      options?: GetMessageOptions,\<newline>'' @
     ''    ): string;\<newline>'' @
     ''  }\<newline>'' @
     ''}\<newline>'')\<close>
proof -
  let ?E = \<open>posix_env [(''{"bye": {"message": "Bye"}}'', [(''bye'', ''Bye'', None)])]\<close>
  let ?cfg = "project_config\<lparr>default_locale := Some ''en''\<rparr>"
  let ?s = \<open>fs_with_catalog ''{"bye": {"message": "Bye"}}''\<close>
  let ?m = "\<lparr>msg_name = ''bye'', msg_message = ''Bye'', msg_description = None\<rparr>"
  have l: "load_messages ?E ?cfg ?s = Inr [?m]"
    by (simp add: load_messages_def defaultLocalePath_def readFile_def fs_with_catalog_def
        posix_env_def project_config_def posix_resolve_def parse_catalog_def)
  have ov: \<open>override ?m =
       ''    /**\<newline>'' @
       ''     * No message description.\<newline>'' @
       ''     *\<newline>'' @
       ''     * "'' @ msg_message ?m @ ''"\<newline>'' @
       ''     */\<newline>'' @
       ''    getMessage(\<newline>'' @
       ''      messageName: "'' @ msg_name ?m @ ''",\<newline>'' @
       ''      substitutions?: string | string[],\<newline>'' @
       ''      options?: GetMessageOptions,\<newline>'' @
       ''    ): string;''\<close>
    using missing_description_uses_fallback [OF l, of ?m] by simp
  have "files (snd (writeI18nDeclarationFile ?E ?cfg ?s)) (resolve ?E [typesDir ?cfg, ''i18n.d.ts''])
      = Some (i18n_content [?m])"
    using load_messages_written [OF l] by simp
  then show ?thesis
    using ov
    by (simp add: i18n_content_def overrides_def js_replace_def i18n_template_split
        posix_env_def project_config_def posix_resolve_def)
qed




section \<open>The lint-globals object\<close>

text \<open>
  The \<^verbatim>\<open>forEach\<close> creates one property per name that is not yet a property, at the end
  of the object. The names arrive sorted, so the properties are created in sorted order,
  and an object without array indices is enumerated in the order of creation.
\<close>

lemma keys_obj_define:
  "map fst (obj_define k v obj) =
     (if k \<in> set (map fst obj) then map fst obj else map fst obj @ [k])"
  by (induction obj) auto

lemma values_obj_define:
  "\<forall>p \<in> set obj. snd p = v \<Longrightarrow> \<forall>p \<in> set (obj_define k v obj). snd p = v"
  by (induction obj) auto

lemma keys_obj_set:
  "map fst (obj_set k v obj) =
     (if k = ''__proto__'' \<or> k \<in> set (map fst obj) then map fst obj else map fst obj @ [k])"
  by (simp add: obj_set_def keys_obj_define)

lemma values_obj_set:
  "\<forall>p \<in> set obj. snd p = v \<Longrightarrow> \<forall>p \<in> set (obj_set k v obj). snd p = v"
  using values_obj_define [of obj v k] by (simp add: obj_set_def)

lemma keys_of_foldl:
  "distinct (map fst (foldl (\<lambda>globals name. obj_set name v globals) [] names))
   \<and> set (map fst (foldl (\<lambda>globals name. obj_set name v globals) [] names)) =
       set names - {''__proto__''}
   \<and> (\<forall>p \<in> set (foldl (\<lambda>globals name. obj_set name v globals) [] names). snd p = v)"
proof (induction names rule: rev_induct)
  case Nil
  then show ?case by simp
next
  case (snoc n names)
  then show ?case
    using values_obj_set [of "foldl (\<lambda>globals name. obj_set name v globals) [] names" v n]
    by (auto simp: keys_obj_set)
qed

lemma sorted_keys_of_foldl:
  "sorted names \<Longrightarrow> sorted (map fst (foldl (\<lambda>globals name. obj_set name v globals) [] names))"
proof (induction names rule: rev_induct)
  case Nil
  then show ?case by simp
next
  case (snoc n names)
  let ?G = "foldl (\<lambda>globals name. obj_set name v globals) [] names"
  from snoc.prems have s: "sorted names" and le: "\<forall>x \<in> set names. x \<le> n"
    by (auto simp: sorted_append)
  from snoc.IH s have "sorted (map fst ?G)" by simp
  moreover have "set (map fst ?G) = set names - {''__proto__''}"
    using keys_of_foldl [of v names] by simp
  ultimately show ?case
    using le by (auto simp: keys_obj_set sorted_append)
qed

lemma mset_own_entries: "mset (own_entries obj) = mset obj"
  by (simp add: own_entries_def)

lemma own_entries_no_index:
  "\<forall>p \<in> set obj. \<not> is_array_index (fst p) \<Longrightarrow> own_entries obj = obj"
proof -
  assume a: "\<forall>p \<in> set obj. \<not> is_array_index (fst p)"
  then have "filter (\<lambda>p. is_array_index (fst p)) obj = []"
    by (simp add: filter_empty_conv)
  moreover from a have "filter (\<lambda>p. \<not> is_array_index (fst p)) obj = obj"
    by (simp add: filter_id_conv)
  ultimately show ?thesis by (simp add: own_entries_def)
qed

lemma set_global_names:
  "set (global_names imps) = {name \<in> binding_name ` set imps. name \<noteq> []}"
  by (auto simp: global_names_def)

text \<open>
  Claim C8, as amended: the lint-globals file is written with the serialized \<^verbatim>\<open>globals\<close>
  object; its property names are the binding names (the alias when there is one, the name
  otherwise) that are neither empty nor \<^verbatim>\<open>__proto__\<close>, each once; every property has the
  configured value; and when no binding name is an array index, the names are enumerated
  in ascending order of their code units.
\<close>

theorem lint_globals_of_bindings:
  "files (writeImportsEslintFile E options s) (eslintrc_filePath options) =
     Some (stringifyJson E (own_entries (eslintrc_globals (getImports E) (eslintrc_globalsPropValue options))))
   \<and> set (map fst (own_entries (eslintrc_globals imps v))) =
       {name \<in> binding_name ` set imps. name \<noteq> [] \<and> name \<noteq> ''__proto__''}
   \<and> distinct (map fst (own_entries (eslintrc_globals imps v)))
   \<and> (\<forall>p \<in> set (own_entries (eslintrc_globals imps v)). snd p = v)
   \<and> ((\<forall>i \<in> set imps. \<not> is_array_index (binding_name i)) \<longrightarrow>
        sorted (map fst (own_entries (eslintrc_globals imps v))))"
proof (intro conjI impI)
  let ?G = "eslintrc_globals imps v"
  have k: "distinct (map fst ?G)" "set (map fst ?G) = set (global_names imps) - {''__proto__''}"
    "\<forall>p \<in> set ?G. snd p = v"
    using keys_of_foldl [of v "global_names imps"] by (simp_all add: eslintrc_globals_def)
  have m: "mset (map fst (own_entries ?G)) = mset (map fst ?G)"
    by (simp add: mset_own_entries)
  show "files (writeImportsEslintFile E options s) (eslintrc_filePath options) =
     Some (stringifyJson E (own_entries (eslintrc_globals (getImports E) (eslintrc_globalsPropValue options))))"
    by (simp add: writeImportsEslintFile_def writeFile_def)
  show "set (map fst (own_entries ?G)) =
      {name \<in> binding_name ` set imps. name \<noteq> [] \<and> name \<noteq> ''__proto__''}"
    using mset_eq_setD [OF m] k(2) by (auto simp: set_global_names)
  show "distinct (map fst (own_entries ?G))"
    using mset_eq_imp_distinct_iff [OF m] k(1) by simp
  show "\<forall>p \<in> set (own_entries ?G). snd p = v"
    using mset_eq_setD [OF mset_own_entries [of ?G]] k(3) by simp
  assume a: "\<forall>i \<in> set imps. \<not> is_array_index (binding_name i)"
  have "\<forall>p \<in> set ?G. \<not> is_array_index (fst p)"
  proof
    fix p assume "p \<in> set ?G"
    then have "fst p \<in> set (map fst ?G)" by simp
    with k(2) have "fst p \<in> binding_name ` set imps" by (simp add: set_global_names)
    with a show "\<not> is_array_index (fst p)" by auto
  qed
  then have "own_entries ?G = ?G" by (rule own_entries_no_index)
  moreover have "sorted (map fst ?G)"
    unfolding eslintrc_globals_def
    by (rule sorted_keys_of_foldl) (simp add: global_names_def)
  ultimately show "sorted (map fst (own_entries ?G))" by simp
qed

theorem lint_globals_of_bindings_witness:
  \<open>files (writeImportsEslintFile
       ((posix_env [])\<lparr>getImports :=
          [\<lparr>import_name = ''useState'', import_as = None\<rparr>,
           \<lparr>import_name = ''default'', import_as = Some ''browser''\<rparr>,
           \<lparr>import_name = ''ref'', import_as = None\<rparr>]\<rparr>)
       \<lparr>eslintrc_enabled = True, eslintrc_filePath = ''/project/.wxt/eslintrc-auto-import.json'',
        eslintrc_globalsPropValue = Readonly\<rparr> empty_fs)
     ''/project/.wxt/eslintrc-auto-import.json'' =
     Some (''{\<newline>'' @
           ''  "globals": {\<newline>'' @
           ''    "browser": "readonly",\<newline>'' @
           ''    "ref": "readonly",\<newline>'' @
           ''    "useState": "readonly"\<newline>'' @
           ''  }\<newline>'' @
           ''}\<newline>'')
   \<and> sorted (map fst (own_entries (eslintrc_globals
        [\<lparr>import_name = ''useState'', import_as = None\<rparr>,
         \<lparr>import_name = ''default'', import_as = Some ''browser''\<rparr>,
         \<lparr>import_name = ''ref'', import_as = None\<rparr>] Readonly)))\<close>
proof -
  let ?imps = "[\<lparr>import_name = ''useState'', import_as = None\<rparr>,
         \<lparr>import_name = ''default'', import_as = Some ''browser''\<rparr>,
         \<lparr>import_name = ''ref'', import_as = None\<rparr>]"
  let ?E = "(posix_env [])\<lparr>getImports := ?imps\<rparr>"
  let ?options = "\<lparr>eslintrc_enabled = True,
        eslintrc_filePath = ''/project/.wxt/eslintrc-auto-import.json'',
        eslintrc_globalsPropValue = Readonly\<rparr>"
  note t = lint_globals_of_bindings [of ?E ?options empty_fs ?imps Readonly]
  have names: "global_names ?imps = [''browser'', ''ref'', ''useState'']"
    by (simp add: global_names_def binding_name_def)
  have idx: "\<not> is_array_index ''browser''" "\<not> is_array_index ''ref''"
    "\<not> is_array_index ''useState''"
    by (simp_all add: is_array_index_def is_digit_def)
  have entries: "own_entries (eslintrc_globals ?imps Readonly) =
      [(''browser'', Readonly), (''ref'', Readonly), (''useState'', Readonly)]"
    by (simp add: eslintrc_globals_def names obj_set_def own_entries_def idx)
  have E: "getImports ?E = ?imps" "stringifyJson ?E = stringify_eslintrc"
    by (simp_all add: posix_env_def)
  have "files (writeImportsEslintFile ?E ?options empty_fs) (eslintrc_filePath ?options) =
      Some (stringifyJson ?E (own_entries (eslintrc_globals (getImports ?E)
              (eslintrc_globalsPropValue ?options))))"
    using t by blast
  then have written: "files (writeImportsEslintFile ?E ?options empty_fs)
      ''/project/.wxt/eslintrc-auto-import.json'' =
      Some (stringify_eslintrc [(''browser'', Readonly), (''ref'', Readonly), (''useState'', Readonly)])"
    by (simp add: E entries)
  have "\<forall>i \<in> set ?imps. \<not> is_array_index (binding_name i)"
    by (simp add: binding_name_def idx)
  with t have "sorted (map fst (own_entries (eslintrc_globals ?imps Readonly)))"
    by blast
  with written show ?thesis
    by (simp add: stringify_eslintrc_def render_prop_value_def)
qed

text \<open>
  The claim as it is written fails where a binding name is empty, which
  \<^verbatim>\<open>filter(Boolean)\<close> drops, where it is \<^verbatim>\<open>__proto__\<close>, which names no property, and
  where names are array indices, which an object enumerates in numeric order: of the
  bindings \<^verbatim>\<open>10\<close>, the empty name, \<^verbatim>\<open>9\<close> and \<^verbatim>\<open>__proto__\<close>, the empty name and
  \<^verbatim>\<open>__proto__\<close> get no property, and the properties are enumerated as \<^verbatim>\<open>9\<close>, \<^verbatim>\<open>10\<close>,
  which is not the order of the strings.
\<close>

theorem lint_globals_counterexample:
  "map_of (own_entries (eslintrc_globals
        [\<lparr>import_name = ''10'', import_as = None\<rparr>,
         \<lparr>import_name = '''', import_as = None\<rparr>,
         \<lparr>import_name = ''9'', import_as = None\<rparr>,
         \<lparr>import_name = ''__proto__'', import_as = None\<rparr>] Readonly))
      (binding_name \<lparr>import_name = '''', import_as = None\<rparr>) = None
   \<and> map_of (own_entries (eslintrc_globals
        [\<lparr>import_name = ''10'', import_as = None\<rparr>,
         \<lparr>import_name = '''', import_as = None\<rparr>,
         \<lparr>import_name = ''9'', import_as = None\<rparr>,
         \<lparr>import_name = ''__proto__'', import_as = None\<rparr>] Readonly))
      (binding_name \<lparr>import_name = ''__proto__'', import_as = None\<rparr>) = None
   \<and> map fst (own_entries (eslintrc_globals
        [\<lparr>import_name = ''10'', import_as = None\<rparr>,
         \<lparr>import_name = '''', import_as = None\<rparr>,
         \<lparr>import_name = ''9'', import_as = None\<rparr>,
         \<lparr>import_name = ''__proto__'', import_as = None\<rparr>] Readonly)) = [''9'', ''10'']
   \<and> \<not> sorted [''9'', ''10'']"
proof -
  have names: "global_names
        [\<lparr>import_name = ''10'', import_as = None\<rparr>,
         \<lparr>import_name = '''', import_as = None\<rparr>,
         \<lparr>import_name = ''9'', import_as = None\<rparr>,
         \<lparr>import_name = ''__proto__'', import_as = None\<rparr>] = [''10'', ''9'', ''__proto__'']"
    by (simp add: global_names_def binding_name_def)
  have idx: "is_array_index ''10''" "is_array_index ''9''"
    "index_value ''10'' = 10" "index_value ''9'' = 9"
    by (simp_all add: is_array_index_def index_value_def is_digit_def)
  have "own_entries (eslintrc_globals
        [\<lparr>import_name = ''10'', import_as = None\<rparr>,
         \<lparr>import_name = '''', import_as = None\<rparr>,
         \<lparr>import_name = ''9'', import_as = None\<rparr>,
         \<lparr>import_name = ''__proto__'', import_as = None\<rparr>] Readonly) =
      [(''9'', Readonly), (''10'', Readonly)]"
    by (simp add: eslintrc_globals_def names obj_set_def own_entries_def idx)
  then show ?thesis
    by (simp add: binding_name_def)
qed

section \<open>Running the pipeline twice\<close>

text \<open>
  A run is the fold of its writes over the file system. A write to one of distinct paths
  is still there when the run ends, and a run over files that already hold the contents
  changes no file and records the unconditional writes only.
\<close>

lemma generateTypesDir_as_writes:
  "generateTypesDir E cfg entrypoints s =
     (case load_messages E cfg (fold apply_write (first_writes E cfg entrypoints) s) of
        Inl e \<Rightarrow> (Inl e, fold apply_write (first_writes E cfg entrypoints) s)
      | Inr messages \<Rightarrow>
          (Inr (), fold apply_write (last_writes E cfg messages)
                     (fold apply_write (first_writes E cfg entrypoints) s)))"
  by (simp add: generateTypesDir_def imports_step_def writeImportsDeclarationFile_def
      writeImportsEslintFile_def writePathsDeclarationFile_def writeI18nDeclarationFile_def
      writeGlobalsDeclarationFile_def writeMainDeclarationFile_def writeTsConfigFile_def
      first_writes_def last_writes_def imports_writes_def imports_references_def Let_def
      split: option.splits sum.splits)

lemma files_apply_write:
  "files (apply_write w s) q = (if q = fst (snd w) then Some (snd (snd w)) else files s q)"
  by (cases w) (simp add: writeFile_def writeFileIfDifferent_def)

lemma fold_untouched:
  "q \<notin> set (map (\<lambda>w. fst (snd w)) ws) \<Longrightarrow> files (fold apply_write ws s) q = files s q"
  by (induction ws arbitrary: s) (auto simp: files_apply_write)

lemma fold_written:
  "distinct (map (\<lambda>w. fst (snd w)) ws) \<Longrightarrow> w \<in> set ws \<Longrightarrow>
     files (fold apply_write ws s) (fst (snd w)) = Some (snd (snd w))"
proof (induction ws arbitrary: s)
  case Nil
  then show ?case by simp
next
  case (Cons x ws)
  show ?case
  proof (cases "w = x")
    case True
    with Cons.prems have "fst (snd w) \<notin> set (map (\<lambda>w. fst (snd w)) ws)" by simp
    then have "files (fold apply_write ws (apply_write x s)) (fst (snd w)) =
        files (apply_write x s) (fst (snd w))"
      by (rule fold_untouched)
    with True show ?thesis by (simp add: files_apply_write)
  next
    case False
    with Cons show ?thesis by simp
  qed
qed

lemma fold_replay:
  "\<forall>w \<in> set ws. files s (fst (snd w)) = Some (snd (snd w)) \<Longrightarrow>
     fold apply_write ws s = s\<lparr>writes := writes s @ map (\<lambda>w. fst (snd w)) (filter fst ws)\<rparr>"
proof (induction ws arbitrary: s)
  case Nil
  then show ?case by simp
next
  case (Cons x ws)
  obtain always p c where x: "x = (always, p, c)" by (cases x)
  from Cons.prems x have here: "files s p = Some c" by simp
  then have same: "(files s)(p \<mapsto> c) = files s" by (simp add: fun_upd_idem)
  have step: "apply_write x s = s\<lparr>writes := writes s @ (if always then [p] else [])\<rparr>"
    using here same by (simp add: x writeFile_def writeFileIfDifferent_def)
  have "\<forall>w \<in> set ws. files (apply_write x s) (fst (snd w)) = Some (snd (snd w))"
    using Cons.prems by (simp add: step)
  then have "fold apply_write ws (apply_write x s) =
      (apply_write x s)\<lparr>writes := writes (apply_write x s) @ map (\<lambda>w. fst (snd w)) (filter fst ws)\<rparr>"
    by (rule Cons.IH)
  then have "fold apply_write ws (apply_write x s) =
      s\<lparr>writes := writes s @ map (\<lambda>w. fst (snd w)) (filter fst (x # ws))\<rparr>"
    unfolding step by (simp add: x)
  then show ?case by (simp del: apply_write.simps)
qed

lemma load_messages_cong:
  "\<forall>l. default_locale cfg = Some l \<longrightarrow>
       files s (defaultLocalePath E cfg l) = files t (defaultLocalePath E cfg l) \<Longrightarrow>
   load_messages E cfg s = load_messages E cfg t"
  by (simp add: load_messages_def readFile_def split: option.splits)

lemma paths_of_writes:
  "map (\<lambda>w. fst (snd w)) (first_writes E cfg entrypoints @ last_writes E cfg messages) =
     written_paths E cfg"
  by (simp add: first_writes_def last_writes_def written_paths_def)

lemma always_of_writes:
  "map (\<lambda>w. fst (snd w)) (filter fst (first_writes E cfg entrypoints)) = lint_globals_paths cfg"
  "filter fst (last_writes E cfg messages) = []"
  by (simp_all add: first_writes_def last_writes_def imports_writes_def lint_globals_paths_def
      split: option.splits)

text \<open>
  When the paths of a run are distinct and the catalog is none of them, a second run
  after a successful one leaves every file as it is and performs one write for the
  lint-globals file if it is enabled, and none otherwise.
\<close>

lemma second_run_writes_only_lint_globals:
  assumes d: "distinct (written_paths E cfg)"
    and cat: "\<forall>l. default_locale cfg = Some l \<longrightarrow> defaultLocalePath E cfg l \<notin> set (written_paths E cfg)"
    and run: "generateTypesDir E cfg entrypoints s = (Inr (), s')"
  shows "generateTypesDir E cfg entrypoints s' =
           (Inr (), s'\<lparr>writes := writes s' @ lint_globals_paths cfg\<rparr>)"
proof -
  let ?first = "first_writes E cfg entrypoints"
  let ?s2 = "fold apply_write ?first s"
  from run obtain messages where ms: "load_messages E cfg ?s2 = Inr messages"
    and s': "s' = fold apply_write (last_writes E cfg messages) ?s2"
    by (auto simp: generateTypesDir_as_writes split: sum.splits)
  let ?last = "last_writes E cfg messages"
  have s'_all: "s' = fold apply_write (?first @ ?last) s"
    by (simp add: s')
  have dist: "distinct (map (\<lambda>w. fst (snd w)) (?first @ ?last))"
    using d by (simp only: paths_of_writes)
  have held: "\<forall>w \<in> set (?first @ ?last). files s' (fst (snd w)) = Some (snd (snd w))"
    unfolding s'_all using fold_written [OF dist] by blast
  let ?t2 = "fold apply_write ?first s'"
  have t2: "?t2 = s'\<lparr>writes := writes s' @ lint_globals_paths cfg\<rparr>"
    using fold_replay [of ?first s'] held by (simp add: always_of_writes)
  have "\<forall>l. default_locale cfg = Some l \<longrightarrow>
      files ?t2 (defaultLocalePath E cfg l) = files ?s2 (defaultLocalePath E cfg l)"
  proof (intro allI impI)
    fix l assume "default_locale cfg = Some l"
    with cat have "defaultLocalePath E cfg l \<notin> set (written_paths E cfg)" by blast
    then have "defaultLocalePath E cfg l \<notin> set (map (\<lambda>w. fst (snd w)) ?last)"
      by (simp add: paths_of_writes [symmetric, of E cfg entrypoints messages])
    then have "files s' (defaultLocalePath E cfg l) = files ?s2 (defaultLocalePath E cfg l)"
      unfolding s' by (rule fold_untouched)
    then show "files ?t2 (defaultLocalePath E cfg l) = files ?s2 (defaultLocalePath E cfg l)"
      by (simp add: t2)
  qed
  then have "load_messages E cfg ?t2 = load_messages E cfg ?s2"
    by (rule load_messages_cong)
  with ms have ms2: "load_messages E cfg ?t2 = Inr messages" by simp
  have "\<forall>w \<in> set ?last. files ?t2 (fst (snd w)) = Some (snd (snd w))"
    using held by (simp add: t2)
  then have "fold apply_write ?last ?t2 = ?t2"
    using fold_replay [of ?last ?t2] by (simp add: always_of_writes)
  with ms2 have "generateTypesDir E cfg entrypoints s' = (Inr (), ?t2)"
    by (simp add: generateTypesDir_as_writes)
  with t2 show ?thesis by simp
qed

lemma second_run_without_lint_globals_writes_nothing:
  assumes "distinct (written_paths E cfg)"
    and "\<forall>l. default_locale cfg = Some l \<longrightarrow> defaultLocalePath E cfg l \<notin> set (written_paths E cfg)"
    and "generateTypesDir E cfg entrypoints s = (Inr (), s')"
    and "lint_globals_paths cfg = []"
  shows "generateTypesDir E cfg entrypoints s' = (Inr (), s')"
  using second_run_writes_only_lint_globals [OF assms(1-3)] assms(4) by simp

lemma fold_fresh:
  "distinct (map (\<lambda>w. fst (snd w)) ws) \<Longrightarrow> \<forall>w \<in> set ws. files s (fst (snd w)) = None \<Longrightarrow>
     writes (fold apply_write ws s) = writes s @ map (\<lambda>w. fst (snd w)) ws"
proof (induction ws arbitrary: s)
  case Nil
  then show ?case by simp
next
  case (Cons x ws)
  obtain always p c where x: "x = (always, p, c)" by (cases x)
  from Cons.prems x have "files s p = None" by simp
  then have step: "writes (apply_write x s) = writes s @ [p]"
    by (simp add: x writeFile_def writeFileIfDifferent_def)
  have "\<forall>w \<in> set ws. files (apply_write x s) (fst (snd w)) = None"
    using Cons.prems by (auto simp: files_apply_write x simp del: apply_write.simps)
  with Cons.prems have "writes (fold apply_write ws (apply_write x s)) =
      writes (apply_write x s) @ map (\<lambda>w. fst (snd w)) ws"
    by (intro Cons.IH) simp_all
  then show ?case
    unfolding step by (simp add: x del: apply_write.simps)
qed

lemma lint_written_paths:
  "written_paths lint_env lint_config =
     [''/project/.wxt/types/imports.d.ts'', ''/project/.wxt/eslintrc-auto-import.json'',
      ''/project/.wxt/types/paths.d.ts'', ''/project/.wxt/types/i18n.d.ts'',
      ''/project/.wxt/types/globals.d.ts'', ''/project/.wxt/wxt.d.ts'',
      ''/project/.wxt/tsconfig.json'']"
  by (simp add: written_paths_def imports_writes_def lint_env_def lint_config_def posix_env_def
      project_config_def posix_resolve_def)

text \<open>
  Claim C1: a second run of the pipeline on unchanged inputs performs no file write, also
  when the lint-globals file is enabled. The code writes the lint-globals file with
  \<^verbatim>\<open>fs.writeJson\<close>, not with \<^verbatim>\<open>writeFileIfDifferent\<close>: in a project with auto-imports and
  the lint-globals file enabled, the first run on an empty file system writes seven files
  and succeeds, and the second run, on the result of the first, writes the lint-globals
  file again.
\<close>

theorem second_run_rewrites_lint_globals:
  "fst (generateTypesDir lint_env lint_config [] empty_fs) = Inr ()
   \<and> writes (snd (generateTypesDir lint_env lint_config [] empty_fs)) =
       [''/project/.wxt/types/imports.d.ts'', ''/project/.wxt/eslintrc-auto-import.json'',
        ''/project/.wxt/types/paths.d.ts'', ''/project/.wxt/types/i18n.d.ts'',
        ''/project/.wxt/types/globals.d.ts'', ''/project/.wxt/wxt.d.ts'',
        ''/project/.wxt/tsconfig.json'']
   \<and> generateTypesDir lint_env lint_config [] (snd (generateTypesDir lint_env lint_config [] empty_fs)) =
       (Inr (), (snd (generateTypesDir lint_env lint_config [] empty_fs))
          \<lparr>writes := writes (snd (generateTypesDir lint_env lint_config [] empty_fs))
                       @ [''/project/.wxt/eslintrc-auto-import.json'']\<rparr>)"
proof -
  let ?run = "generateTypesDir lint_env lint_config [] empty_fs"
  have no_locale: "default_locale lint_config = None"
    by (simp add: lint_config_def project_config_def)
  have ms: "\<And>t. load_messages lint_env lint_config t = Inr []"
    by (simp add: load_messages_def no_locale lint_env_def posix_env_def parse_catalog_def)
  have shape: "?run = (Inr (), fold apply_write
      (first_writes lint_env lint_config [] @ last_writes lint_env lint_config []) empty_fs)"
    by (simp add: generateTypesDir_as_writes ms)
  have d: "distinct (written_paths lint_env lint_config)"
    by (simp add: lint_written_paths)
  have "writes (fold apply_write
      (first_writes lint_env lint_config [] @ last_writes lint_env lint_config []) empty_fs) =
      writes empty_fs @ written_paths lint_env lint_config"
    unfolding paths_of_writes [symmetric, of lint_env lint_config "[]" "[]"]
    by (rule fold_fresh) (simp_all only: paths_of_writes d, simp add: empty_fs_def)
  moreover have "writes empty_fs = []"
    by (simp add: empty_fs_def)
  ultimately have w: "writes (snd ?run) = written_paths lint_env lint_config"
    by (simp add: shape)
  have lint: "lint_globals_paths lint_config = [''/project/.wxt/eslintrc-auto-import.json'']"
    by (simp add: lint_globals_paths_def lint_config_def)
  have "generateTypesDir lint_env lint_config [] (snd ?run) =
      (Inr (), (snd ?run)\<lparr>writes := writes (snd ?run) @ lint_globals_paths lint_config\<rparr>)"
    by (rule second_run_writes_only_lint_globals [where s = empty_fs, OF d])
       (simp_all add: no_locale shape)
  with shape w show ?thesis
    by (simp only: lint lint_written_paths fst_conv snd_conv simp_thms)
qed

end
